theory Spec2Isabelle
  imports Main
begin

section \<open>JavaScript values, objects and errors\<close>

text \<open>
  The values the inspector handles at run time: what the driver decodes a catalog cell to
  (\<open>null\<close>, a string, a number, a boolean), \<open>undefined\<close> for a property that is not
  there, and a function value for a method read off an object.
\<close>

datatype jsval =
    JUndefined
  | JNull
  | JBool bool
  | JNum int
  | JStr string
  | JFunction string

text \<open>JavaScript truthiness, as \<open>if (x)\<close> and \<open>!!x\<close> decide it.\<close>

fun truthy :: "jsval \<Rightarrow> bool" where
  "truthy JUndefined = False"
| "truthy JNull = False"
| "truthy (JBool b) = b"
| "truthy (JNum n) = (n \<noteq> 0)"
| "truthy (JStr s) = (s \<noteq> [])"
| "truthy (JFunction f) = True"

text \<open>
  An optional string parameter (\<open>table?: string\<close>): \<open>None\<close> is \<open>undefined\<close>.
\<close>

fun arg :: "string option \<Rightarrow> jsval" where
  "arg None = JUndefined"
| "arg (Some s) = JStr s"

text \<open>
  A rejected promise carries an error: a \<open>TypeError\<close> of the JavaScript run time, or the
  error the database answers a query with.
\<close>

datatype error = TypeError string | QueryError string

text \<open>
  A result row is a plain object: property names with their values, in the order of the
  select list. Reading a property that is not there gives \<open>undefined\<close>.
\<close>

type_synonym obj = "(string \<times> jsval) list"

definition get :: "obj \<Rightarrow> string \<Rightarrow> jsval" where
  "get ob k = (case map_of ob k of None \<Rightarrow> JUndefined | Some v \<Rightarrow> v)"

section \<open>The catalog\<close>

text \<open>
  The state the inspector reads: the name of the database selected on the connection
  (\<open>this.knex.client.database()\<close>) and the rows of the four \<open>information_schema\<close> views
  the queries name, with the columns those queries use. The key listing that
  \<open>SHOW KEYS\<close> prints is kept per table. Nullable cells are options.
\<close>

record tables_row =
  t_TABLE_SCHEMA :: string
  t_TABLE_NAME :: string
  t_TABLE_TYPE :: string
  t_ENGINE :: string
  t_TABLE_COLLATION :: string
  t_TABLE_COMMENT :: "string option"

record columns_row =
  c_TABLE_SCHEMA :: string
  c_TABLE_NAME :: string
  c_COLUMN_NAME :: string
  c_COLUMN_DEFAULT :: jsval
  c_DATA_TYPE :: string
  c_CHARACTER_MAXIMUM_LENGTH :: "int option"
  c_IS_NULLABLE :: bool
  c_COLUMN_KEY :: "string option"
  c_EXTRA :: "string option"
  c_COLLATION_NAME :: "string option"
  c_COLUMN_COMMENT :: "string option"

record key_column_usage_row =
  fk_CONSTRAINT_SCHEMA :: string
  fk_CONSTRAINT_NAME :: string
  fk_TABLE_SCHEMA :: string
  fk_TABLE_NAME :: string
  fk_COLUMN_NAME :: string
  fk_REFERENCED_TABLE_NAME :: "string option"
  fk_REFERENCED_COLUMN_NAME :: "string option"

record referential_constraints_row =
  rc_CONSTRAINT_SCHEMA :: string
  rc_CONSTRAINT_NAME :: string
  rc_TABLE_NAME :: string
  rc_REFERENCED_TABLE_NAME :: string
  rc_UPDATE_RULE :: string
  rc_DELETE_RULE :: string
  rc_MATCH_OPTION :: string

record keys_row =
  k_Schema :: string
  k_Table :: string
  k_Key_name :: string
  k_Seq_in_index :: int
  k_Column_name :: string

record catalog =
  database :: string
  info_tables :: "tables_row list"
  info_columns :: "columns_row list"
  info_key_column_usage :: "key_column_usage_row list"
  info_referential_constraints :: "referential_constraints_row list"
  show_keys :: "keys_row list"

datatype view = TABLES | COLUMNS | KEY_COLUMN_USAGE | REFERENTIAL_CONSTRAINTS

fun opt_str :: "string option \<Rightarrow> jsval" where
  "opt_str None = JNull"
| "opt_str (Some s) = JStr s"

fun opt_num :: "int option \<Rightarrow> jsval" where
  "opt_num None = JNull"
| "opt_num (Some n) = JNum n"

text \<open>The cells of a catalog row, under the view's column names.\<close>

definition cells_of_table :: "tables_row \<Rightarrow> obj" where
  "cells_of_table r =
    [(''TABLE_SCHEMA'', JStr (t_TABLE_SCHEMA r)),
     (''TABLE_NAME'', JStr (t_TABLE_NAME r)),
     (''TABLE_TYPE'', JStr (t_TABLE_TYPE r)),
     (''ENGINE'', JStr (t_ENGINE r)),
     (''TABLE_COLLATION'', JStr (t_TABLE_COLLATION r)),
     (''TABLE_COMMENT'', opt_str (t_TABLE_COMMENT r))]"

definition cells_of_column :: "columns_row \<Rightarrow> obj" where
  "cells_of_column r =
    [(''TABLE_SCHEMA'', JStr (c_TABLE_SCHEMA r)),
     (''TABLE_NAME'', JStr (c_TABLE_NAME r)),
     (''COLUMN_NAME'', JStr (c_COLUMN_NAME r)),
     (''COLUMN_DEFAULT'', c_COLUMN_DEFAULT r),
     (''DATA_TYPE'', JStr (c_DATA_TYPE r)),
     (''CHARACTER_MAXIMUM_LENGTH'', opt_num (c_CHARACTER_MAXIMUM_LENGTH r)),
     (''IS_NULLABLE'', JBool (c_IS_NULLABLE r)),
     (''COLUMN_KEY'', opt_str (c_COLUMN_KEY r)),
     (''EXTRA'', opt_str (c_EXTRA r)),
     (''COLLATION_NAME'', opt_str (c_COLLATION_NAME r)),
     (''COLUMN_COMMENT'', opt_str (c_COLUMN_COMMENT r))]"

definition cells_of_key_usage :: "key_column_usage_row \<Rightarrow> obj" where
  "cells_of_key_usage r =
    [(''CONSTRAINT_SCHEMA'', JStr (fk_CONSTRAINT_SCHEMA r)),
     (''CONSTRAINT_NAME'', JStr (fk_CONSTRAINT_NAME r)),
     (''TABLE_SCHEMA'', JStr (fk_TABLE_SCHEMA r)),
     (''TABLE_NAME'', JStr (fk_TABLE_NAME r)),
     (''COLUMN_NAME'', JStr (fk_COLUMN_NAME r)),
     (''REFERENCED_TABLE_NAME'', opt_str (fk_REFERENCED_TABLE_NAME r)),
     (''REFERENCED_COLUMN_NAME'', opt_str (fk_REFERENCED_COLUMN_NAME r))]"

definition cells_of_constraint :: "referential_constraints_row \<Rightarrow> obj" where
  "cells_of_constraint r =
    [(''CONSTRAINT_SCHEMA'', JStr (rc_CONSTRAINT_SCHEMA r)),
     (''CONSTRAINT_NAME'', JStr (rc_CONSTRAINT_NAME r)),
     (''TABLE_NAME'', JStr (rc_TABLE_NAME r)),
     (''REFERENCED_TABLE_NAME'', JStr (rc_REFERENCED_TABLE_NAME r)),
     (''UPDATE_RULE'', JStr (rc_UPDATE_RULE r)),
     (''DELETE_RULE'', JStr (rc_DELETE_RULE r)),
     (''MATCH_OPTION'', JStr (rc_MATCH_OPTION r))]"

fun view_columns :: "view \<Rightarrow> string list" where
  "view_columns TABLES =
    [''TABLE_SCHEMA'', ''TABLE_NAME'', ''TABLE_TYPE'', ''ENGINE'', ''TABLE_COLLATION'',
     ''TABLE_COMMENT'']"
| "view_columns COLUMNS =
    [''TABLE_SCHEMA'', ''TABLE_NAME'', ''COLUMN_NAME'', ''COLUMN_DEFAULT'', ''DATA_TYPE'',
     ''CHARACTER_MAXIMUM_LENGTH'', ''IS_NULLABLE'', ''COLUMN_KEY'', ''EXTRA'',
     ''COLLATION_NAME'', ''COLUMN_COMMENT'']"
| "view_columns KEY_COLUMN_USAGE =
    [''CONSTRAINT_SCHEMA'', ''CONSTRAINT_NAME'', ''TABLE_SCHEMA'', ''TABLE_NAME'',
     ''COLUMN_NAME'', ''REFERENCED_TABLE_NAME'', ''REFERENCED_COLUMN_NAME'']"
| "view_columns REFERENTIAL_CONSTRAINTS =
    [''CONSTRAINT_SCHEMA'', ''CONSTRAINT_NAME'', ''TABLE_NAME'', ''REFERENCED_TABLE_NAME'',
     ''UPDATE_RULE'', ''DELETE_RULE'', ''MATCH_OPTION'']"

fun view_rows :: "catalog \<Rightarrow> view \<Rightarrow> obj list" where
  "view_rows cat TABLES = map cells_of_table (info_tables cat)"
| "view_rows cat COLUMNS = map cells_of_column (info_columns cat)"
| "view_rows cat KEY_COLUMN_USAGE = map cells_of_key_usage (info_key_column_usage cat)"
| "view_rows cat REFERENTIAL_CONSTRAINTS =
    map cells_of_constraint (info_referential_constraints cat)"

section \<open>The query layer\<close>

text \<open>
  The inspector builds its queries with a query builder and awaits them; the builder and
  the database behind it are the inspector's collaborators, and this section says what
  they do with the queries the inspector builds. The builder is a
  value: what \<open>select\<close>, \<open>count\<close>, \<open>from\<close>, \<open>leftJoin\<close>, \<open>where\<close>, \<open>andWhere\<close> and
  \<open>first\<close> recorded. Nothing is sent to the database until the builder is awaited.
  A column reference is a qualifier (empty when the source writes none) and a name:
  \<open>'c.TABLE_NAME'\<close> is \<open>(''c'', ''TABLE_NAME'')\<close>.
\<close>

type_synonym colref = "string \<times> string"

abbreviation col :: "string \<Rightarrow> colref" where
  "col n \<equiv> ([], n)"

abbreviation qcol :: "string \<Rightarrow> string \<Rightarrow> colref" where
  "qcol a n \<equiv> (a, n)"

record query =
  q_count :: "string option"
  q_select :: "colref list"
  q_from :: "(view \<times> string) option"
  q_joins :: "(view \<times> string \<times> (colref \<times> colref) list) list"
  q_wheres :: "(colref \<times> jsval) list"
  q_first :: bool

definition knex_select :: "colref list \<Rightarrow> query" where
  "knex_select cols =
    \<lparr>q_count = None, q_select = cols, q_from = None, q_joins = [], q_wheres = [],
     q_first = False\<rparr>"

definition knex_count :: "string \<Rightarrow> query" where
  "knex_count k =
    \<lparr>q_count = Some k, q_select = [], q_from = None, q_joins = [], q_wheres = [],
     q_first = False\<rparr>"

definition knex_from :: "view \<Rightarrow> string \<Rightarrow> query \<Rightarrow> query" where
  "knex_from v a q = q\<lparr>q_from := Some (v, a)\<rparr>"

definition knex_leftJoin ::
  "view \<Rightarrow> string \<Rightarrow> (colref \<times> colref) list \<Rightarrow> query \<Rightarrow> query" where
  "knex_leftJoin v a conds q = q\<lparr>q_joins := q_joins q @ [(v, a, conds)]\<rparr>"

definition knex_where :: "(colref \<times> jsval) list \<Rightarrow> query \<Rightarrow> query" where
  "knex_where conds q = q\<lparr>q_wheres := q_wheres q @ conds\<rparr>"

definition knex_andWhere :: "(colref \<times> jsval) list \<Rightarrow> query \<Rightarrow> query" where
  "knex_andWhere conds q = knex_where conds q"

definition knex_first :: "query \<Rightarrow> query" where
  "knex_first q = q\<lparr>q_first := True\<rparr>"

text \<open>
  Reading a property off a builder that was not awaited reads the builder object itself:
  its methods are function values, anything else is \<open>undefined\<close>.
\<close>

definition builder_methods :: "string list" where
  "builder_methods =
    [''select'', ''count'', ''from'', ''leftJoin'', ''on'', ''andOn'', ''where'',
     ''andWhere'', ''first'', ''then'', ''catch'']"

definition builder_get :: "query \<Rightarrow> string \<Rightarrow> jsval" where
  "builder_get q k = (if k \<in> set builder_methods then JFunction k else JUndefined)"

subsection \<open>Running a query\<close>

text \<open>
  Column names are matched without regard to case; a reference without a qualifier
  matches the column of that name in any view of the query. Values are compared as they
  are: two strings are equal when they are the same string.
\<close>

definition upper :: "char \<Rightarrow> char" where
  "upper c =
    (case map_of (zip ''abcdefghijklmnopqrstuvwxyz'' ''ABCDEFGHIJKLMNOPQRSTUVWXYZ'') c of
      Some u \<Rightarrow> u
    | None \<Rightarrow> c)"

definition norm :: "string \<Rightarrow> string" where
  "norm n = map upper n"

definition matches :: "colref \<Rightarrow> colref \<Rightarrow> bool" where
  "matches ref c \<longleftrightarrow> (fst ref = [] \<or> fst ref = fst c) \<and> norm (snd ref) = norm (snd c)"

type_synonym row = "(colref \<times> jsval) list"

definition lookup :: "row \<Rightarrow> colref \<Rightarrow> jsval option" where
  "lookup r ref = map_option snd (find (\<lambda>cell. matches ref (fst cell)) r)"

definition qualify :: "string \<Rightarrow> obj \<Rightarrow> row" where
  "qualify a cells = map (\<lambda>cell. ((a, fst cell), snd cell)) cells"

definition null_row :: "string \<Rightarrow> view \<Rightarrow> row" where
  "null_row a v = map (\<lambda>n. ((a, n), JNull)) (view_columns v)"

text \<open>SQL equality: a comparison with \<open>NULL\<close> on either side does not hold.\<close>

definition sql_eq :: "jsval \<Rightarrow> jsval \<Rightarrow> bool" where
  "sql_eq a b \<longleftrightarrow> a \<noteq> JNull \<and> b \<noteq> JNull \<and> a = b"

definition on_holds :: "(colref \<times> colref) list \<Rightarrow> row \<Rightarrow> bool" where
  "on_holds conds r =
    list_all (\<lambda>cond.
      case (lookup r (fst cond), lookup r (snd cond)) of
        (Some a, Some b) \<Rightarrow> sql_eq a b
      | _ \<Rightarrow> False) conds"

definition where_holds :: "(colref \<times> jsval) list \<Rightarrow> row \<Rightarrow> bool" where
  "where_holds conds r =
    list_all (\<lambda>cond.
      case lookup r (fst cond) of
        Some a \<Rightarrow> sql_eq a (snd cond)
      | None \<Rightarrow> False) conds"

text \<open>
  A left join keeps every row of the left side: with each row of the joined view that
  satisfies the condition, or once, with \<open>NULL\<close> in the joined view's columns, when none
  does.
\<close>

definition left_join ::
  "catalog \<Rightarrow> row list \<Rightarrow> view \<times> string \<times> (colref \<times> colref) list \<Rightarrow> row list" where
  "left_join cat rows j =
    (case j of (v, a, conds) \<Rightarrow>
      concat (map (\<lambda>l.
        case filter (on_holds conds) (map (\<lambda>r. l @ qualify a r) (view_rows cat v)) of
          [] \<Rightarrow> [l @ null_row a v]
        | m # ms \<Rightarrow> m # ms) rows))"

definition scope :: "query \<Rightarrow> colref list" where
  "scope q =
    (case q_from q of
      None \<Rightarrow> []
    | Some (v, a) \<Rightarrow>
        map (Pair a) (view_columns v)
        @ concat (map (\<lambda>(v', a', conds). map (Pair a') (view_columns v')) (q_joins q)))"

definition refs :: "query \<Rightarrow> colref list" where
  "refs q =
    q_select q
    @ concat (map (\<lambda>(v, a, conds). concat (map (\<lambda>cond. [fst cond, snd cond]) conds))
        (q_joins q))
    @ map fst (q_wheres q)"

definition unresolved :: "query \<Rightarrow> colref list" where
  "unresolved q = filter (\<lambda>ref. \<not> list_ex (matches ref) (scope q)) (refs q)"

definition project :: "colref list \<Rightarrow> row \<Rightarrow> obj" where
  "project sel r =
    map (\<lambda>ref. (snd ref, case lookup r ref of Some v \<Rightarrow> v | None \<Rightarrow> JNull)) sel"

text \<open>
  The database refuses a query that names a column none of its views has. Otherwise the
  rows of the first view are joined, filtered and projected on the select list, each
  result row under the names the select list wrote; a count query answers one row with
  the number of rows kept. Rows come in the order of the catalog.
\<close>

definition run :: "catalog \<Rightarrow> query \<Rightarrow> error + obj list" where
  "run cat q =
    (case q_from q of
      None \<Rightarrow> Inl (QueryError ''No tables used'')
    | Some (v, a) \<Rightarrow>
        (case unresolved q of
          ref # _ \<Rightarrow> Inl (QueryError (''Unknown column '' @ snd ref))
        | [] \<Rightarrow>
            let joined = foldl (left_join cat) (map (qualify a) (view_rows cat v)) (q_joins q);
                kept = filter (where_holds (q_wheres q)) joined
            in Inr (case q_count q of
                      Some k \<Rightarrow> [[(k, JNum (int (length kept)))]]
                    | None \<Rightarrow> map (project (q_select q)) kept)))"

text \<open>
  Awaiting a builder runs it. With \<open>first\<close> the answer is the first row, or \<open>undefined\<close>
  when there is none; without it, the array of rows.
\<close>

datatype awaited = Rows "obj list" | Row obj | Undefined

definition await :: "catalog \<Rightarrow> query \<Rightarrow> error + awaited" where
  "await cat q =
    (case run cat q of
      Inl e \<Rightarrow> Inl e
    | Inr rs \<Rightarrow>
        Inr (if q_first q then (case rs of [] \<Rightarrow> Undefined | r # _ \<Rightarrow> Row r) else Rows rs))"

section \<open>The inspector\<close>

datatype 'a one_or_many = One 'a | Many "'a list"

subsection \<open>Tables\<close>

text \<open>
  \<open>tables\<close>: the select list is \<open>'table_namename'\<close> in the source, and the mapping of
  the records reads \<open>table_name\<close>.
\<close>

definition tables :: "catalog \<Rightarrow> error + jsval list" where
  "tables cat =
    (let q0 = knex_select [col ''table_namename''];
         q1 = knex_from TABLES [] q0;
         q2 = knex_where
                [(col ''table_type'', JStr ''BASE TABLE''),
                 (col ''table_schema'', JStr (database cat))] q1
     in case await cat q2 of
          Inl e \<Rightarrow> Inl e
        | Inr (Rows records) \<Rightarrow> Inr (map (\<lambda>record. get record ''table_name'') records)
        | Inr _ \<Rightarrow> Inl (TypeError ''records.map is not a function''))"

text \<open>
  The \<open>Table\<close> value (\<open>name\<close>, \<open>schema\<close>, \<open>comment\<close>, \<open>collation\<close>, \<open>engine\<close>), its
  fields as the row's properties were read. Both branches of \<open>tableInfo\<close> build it with the
  same object literal. With a table name that is truthy, \<open>tableInfo\<close> awaits the first row
  and reads its properties; a property read off \<open>undefined\<close> throws a \<open>TypeError\<close>.
\<close>

record Table =
  Table_name :: jsval
  Table_schema :: jsval
  Table_comment :: jsval
  Table_collation :: jsval
  Table_engine :: jsval

definition table_of_raw :: "obj \<Rightarrow> Table" where
  "table_of_raw rawTable =
    \<lparr>Table_name = get rawTable ''TABLE_NAME'',
     Table_schema = get rawTable ''TABLE_SCHEMA'',
     Table_comment = get rawTable ''TABLE_COMMENT'',
     Table_collation = get rawTable ''TABLE_COLLATION'',
     Table_engine = get rawTable ''ENGINE''\<rparr>"

definition tableInfo_query :: "catalog \<Rightarrow> query" where
  "tableInfo_query cat =
    (let q0 = knex_select
                [col ''TABLE_NAME'', col ''ENGINE'', col ''TABLE_SCHEMA'',
                 col ''TABLE_COLLATION'', col ''TABLE_COMMENT''];
         q1 = knex_from TABLES [] q0
     in knex_where
          [(col ''table_schema'', JStr (database cat)),
           (col ''table_type'', JStr ''BASE TABLE'')] q1)"

definition tableInfo :: "catalog \<Rightarrow> string option \<Rightarrow> error + Table one_or_many" where
  "tableInfo cat table =
    (let query = tableInfo_query cat
     in if truthy (arg table) then
          (case await cat (knex_first (knex_andWhere [(col ''table_name'', arg table)] query)) of
            Inl e \<Rightarrow> Inl e
          | Inr (Row rawTable) \<Rightarrow> Inr (One (table_of_raw rawTable))
          | Inr Undefined \<Rightarrow> Inl (TypeError ''Cannot read property TABLE_NAME of undefined'')
          | Inr (Rows rs) \<Rightarrow> Inr (One (table_of_raw [])))
        else
          (case await cat query of
            Inl e \<Rightarrow> Inl e
          | Inr (Rows records) \<Rightarrow> Inr (Many (map table_of_raw records))
          | Inr _ \<Rightarrow> Inl (TypeError ''records.map is not a function'')))"

text \<open>
  \<open>hasTable\<close> builds a count query and takes \<open>count\<close> out of what the builder chain
  returns. The chain is not awaited: \<open>count\<close> is read off the builder.
\<close>

definition hasTable_query :: "catalog \<Rightarrow> string \<Rightarrow> query" where
  "hasTable_query cat table =
    (let q0 = knex_count ''count'';
         q1 = knex_from TABLES [] q0;
         q2 = knex_where
                [(col ''table_schema'', JStr (database cat)),
                 (col ''table_name'', JStr table)] q1
     in knex_first q2)"

definition hasTable :: "catalog \<Rightarrow> string \<Rightarrow> error + bool" where
  "hasTable cat table =
    (let count = builder_get (hasTable_query cat table) ''count''
     in Inr (truthy count))"

subsection \<open>Columns\<close>

text \<open>
  The \<open>Column\<close> value. \<open>columnInfo\<close> writes the object literal twice, once in the branch
  for a single column and once in the mapping over all rows; each is modelled from its
  own place in the source.
\<close>

record Column =
  Column_name :: jsval
  Column_table :: jsval
  Column_type :: jsval
  Column_default_value :: jsval
  Column_max_length :: jsval
  Column_is_nullable :: jsval
  Column_is_primary_key :: bool
  Column_has_auto_increment :: bool
  Column_foreign_key_column :: jsval
  Column_foreign_key_table :: jsval
  Column_comment :: jsval

definition column_of_raw_single :: "obj \<Rightarrow> Column" where
  "column_of_raw_single rawColumn =
    \<lparr>Column_name = get rawColumn ''COLUMN_NAME'',
     Column_table = get rawColumn ''TABLE_NAME'',
     Column_type = get rawColumn ''DATA_TYPE'',
     Column_default_value = get rawColumn ''COLUMN_DEFAULT'',
     Column_max_length = get rawColumn ''CHARACTER_MAXIMUM_LENGTH'',
     Column_is_nullable = get rawColumn ''IS_NULLABLE'',
     Column_is_primary_key = (get rawColumn ''CONSTRAINT_NAME'' = JStr ''PRIMARY''),
     Column_has_auto_increment = (get rawColumn ''EXTRA'' = JStr ''auto_increment''),
     Column_foreign_key_column = get rawColumn ''REFERENCED_COLUMN_NAME'',
     Column_foreign_key_table = get rawColumn ''REFERENCED_TABLE_NAME'',
     Column_comment = get rawColumn ''COLUMN_COMMENT''\<rparr>"

definition column_of_raw_list :: "obj \<Rightarrow> Column" where
  "column_of_raw_list rawColumn =
    \<lparr>Column_name = get rawColumn ''COLUMN_NAME'',
     Column_table = get rawColumn ''TABLE_NAME'',
     Column_type = get rawColumn ''DATA_TYPE'',
     Column_default_value = get rawColumn ''COLUMN_DEFAULT'',
     Column_max_length = get rawColumn ''CHARACTER_MAXIMUM_LENGTH'',
     Column_is_nullable = get rawColumn ''IS_NULLABLE'',
     Column_is_primary_key = (get rawColumn ''CONSTRAINT_NAME'' = JStr ''PRIMARY''),
     Column_has_auto_increment = (get rawColumn ''EXTRA'' = JStr ''auto_increment''),
     Column_foreign_key_column = get rawColumn ''REFERENCED_COLUMN_NAME'',
     Column_foreign_key_table = get rawColumn ''REFERENCED_TABLE_NAME'',
     Column_comment = get rawColumn ''COLUMN_COMMENT''\<rparr>"

text \<open>
  The conditions of the two joins, as the callbacks passed to \<open>leftJoin\<close> build them with
  \<open>on\<close> and \<open>andOn\<close>: each pair is an equality of two columns.
\<close>

definition fk_on :: "(colref \<times> colref) list" where
  "fk_on =
    [(qcol ''fk'' ''TABLE_NAME'', qcol ''fk'' ''TABLE_NAME''),
     (qcol ''fk'' ''COLUMN_NAME'', qcol ''c'' ''COLUMN_NAME''),
     (qcol ''fk'' ''CONSTRAINT_SCHEMA'', qcol ''c'' ''TABLE_SCHEMA'')]"

definition rc_on :: "(colref \<times> colref) list" where
  "rc_on =
    [(qcol ''rc'' ''TABLE_NAME'', qcol ''fk'' ''TABLE_NAME''),
     (qcol ''rc'' ''CONSTRAINT_NAME'', qcol ''fk'' ''CONSTRAINT_NAME''),
     (qcol ''rc'' ''CONSTRAINT_SCHEMA'', qcol ''fk'' ''CONSTRAINT_SCHEMA'')]"

definition columnInfo_select :: "colref list" where
  "columnInfo_select =
    [qcol ''c'' ''TABLE_NAME'',
     qcol ''c'' ''COLUMN_NAME'',
     qcol ''c'' ''COLUMN_DEFAULT'',
     qcol ''c'' ''DATA_TYPE'',
     qcol ''c'' ''CHARACTER_MAXIMUM_LENGTH'',
     qcol ''c'' ''IS_NULLABLE'',
     qcol ''c'' ''COLUMN_KEY'',
     qcol ''c'' ''EXTRA'',
     qcol ''c'' ''COLLATION_NAME'',
     qcol ''c'' ''COLUMN_COMMENT'',
     qcol ''fk'' ''REFERENCED_TABLE_NAME'',
     qcol ''fk'' ''REFERENCED_COLUMN_NAME'',
     qcol ''fk'' ''CONSTRAINT_NAME'',
     qcol ''rc'' ''UPDATE_RULE'',
     qcol ''rc'' ''DELETE_RULE'',
     qcol ''rc'' ''MATCH_OPTION'']"

text \<open>
  The query of \<open>columnInfo\<close>. The builder is mutable in the source (\<open>query.andWhere\<close>
  changes \<open>query\<close> in place); here each step returns the new builder.
\<close>

definition columnInfo_query :: "catalog \<Rightarrow> string option \<Rightarrow> query" where
  "columnInfo_query cat table =
    (let q0 = knex_select columnInfo_select;
         q1 = knex_from COLUMNS ''c'' q0;
         q2 = knex_leftJoin KEY_COLUMN_USAGE ''fk'' fk_on q1;
         q3 = knex_leftJoin REFERENTIAL_CONSTRAINTS ''rc'' rc_on q2;
         q4 = knex_where [(qcol ''c'' ''TABLE_SCHEMA'', JStr (database cat))] q3
     in if truthy (arg table)
        then knex_andWhere [(qcol ''c'' ''TABLE_NAME'', arg table)] q4
        else q4)"

definition columnInfo ::
  "catalog \<Rightarrow> string option \<Rightarrow> string option \<Rightarrow> error + Column one_or_many" where
  "columnInfo cat table column =
    (let query = columnInfo_query cat table
     in if truthy (arg column) then
          (case await cat
                  (knex_first (knex_andWhere [(qcol ''c'' ''column_name'', arg column)] query)) of
            Inl e \<Rightarrow> Inl e
          | Inr (Row rawColumn) \<Rightarrow> Inr (One (column_of_raw_single rawColumn))
          | Inr Undefined \<Rightarrow> Inl (TypeError ''Cannot read property COLUMN_NAME of undefined'')
          | Inr (Rows rs) \<Rightarrow> Inr (One (column_of_raw_single [])))
        else
          (case await cat query of
            Inl e \<Rightarrow> Inl e
          | Inr (Rows records) \<Rightarrow> Inr (Many (map column_of_raw_list records))
          | Inr _ \<Rightarrow> Inl (TypeError ''records.map is not a function'')))"

definition hasColumn_query :: "catalog \<Rightarrow> string \<Rightarrow> string \<Rightarrow> query" where
  "hasColumn_query cat table column =
    (let q0 = knex_count ''count'';
         q1 = knex_from TABLES [] q0;
         q2 = knex_where
                [(col ''table_schema'', JStr (database cat)),
                 (col ''table_name'', JStr table),
                 (col ''column_name'', JStr column)] q1
     in knex_first q2)"

definition hasColumn :: "catalog \<Rightarrow> string \<Rightarrow> string \<Rightarrow> error + bool" where
  "hasColumn cat table column =
    (let count = builder_get (hasColumn_query cat table column) ''count''
     in Inr (truthy count))"

subsection \<open>Primary key\<close>

text \<open>
  \<open>primary\<close> sends \<open>SHOW KEYS FROM ?? WHERE Key_name = 'PRIMARY'\<close> with the table's name
  bound to \<open>??\<close>. The builder binds \<open>??\<close> as an identifier: a name with \<open>" as "\<close> in it
  (in any case) becomes an alias; otherwise the name is split at each dot, each part is
  trimmed and quoted, and the part \<open>*\<close> is left as it is. So \<open>users\<close> names the table
  \<open>users\<close> of the selected database and \<open>app.users\<close> the table \<open>users\<close> of the database
  \<open>app\<close>; an alias, a \<open>*\<close> or more than two parts is no table for \<open>SHOW KEYS\<close>, and the
  database refuses the statement.
\<close>

fun split_on :: "char \<Rightarrow> string \<Rightarrow> string list" where
  "split_on d [] = [[]]"
| "split_on d (c # cs) =
    (if c = d then [] # split_on d cs
     else (case split_on d cs of
             [] \<Rightarrow> [[c]]
           | s # ss \<Rightarrow> (c # s) # ss))"

definition is_space :: "char \<Rightarrow> bool" where
  "is_space c \<longleftrightarrow> c \<in> set [CHR '' '', CHR 0x09, CHR 0x0A, CHR 0x0B, CHR 0x0C, CHR 0x0D]"

definition trim :: "string \<Rightarrow> string" where
  "trim s = rev (dropWhile is_space (rev (dropWhile is_space s)))"

fun contains :: "string \<Rightarrow> string \<Rightarrow> bool" where
  "contains sub [] = (sub = [])"
| "contains sub (c # cs) = (take (length sub) (c # cs) = sub \<or> contains sub cs)"

definition show_keys_target :: "catalog \<Rightarrow> string \<Rightarrow> (string \<times> string) option" where
  "show_keys_target cat name =
    (if contains '' AS '' (norm name) then None
     else (case map trim (split_on CHR ''.'' name) of
             [t] \<Rightarrow> if t = ''*'' then None else Some (database cat, t)
           | [d, t] \<Rightarrow> if d = ''*'' \<or> t = ''*'' then None else Some (d, t)
           | _ \<Rightarrow> None))"

text \<open>
  The statement answers the rows of the key listing of that table whose key is
  \<open>PRIMARY\<close>, in the order of the listing, or the database's error when there is no such
  table. The driver answers a raw statement with the pair of the rows and the field
  descriptions; \<open>results[0]\<close> is the rows, and \<open>results[0][0]\<close> the first of them.
\<close>

definition keys_obj :: "keys_row \<Rightarrow> obj" where
  "keys_obj k =
    [(''Table'', JStr (k_Table k)),
     (''Key_name'', JStr (k_Key_name k)),
     (''Seq_in_index'', JNum (k_Seq_in_index k)),
     (''Column_name'', JStr (k_Column_name k))]"

definition raw_show_keys_primary :: "catalog \<Rightarrow> string \<Rightarrow> error + obj list" where
  "raw_show_keys_primary cat table =
    (case show_keys_target cat table of
      None \<Rightarrow> Inl (QueryError ''You have an error in your SQL syntax'')
    | Some (db, t) \<Rightarrow>
        if list_ex (\<lambda>r. t_TABLE_SCHEMA r = db \<and> t_TABLE_NAME r = t) (info_tables cat)
        then Inr (map keys_obj
               (filter (\<lambda>k. k_Schema k = db \<and> k_Table k = t \<and> k_Key_name k = ''PRIMARY'')
                 (show_keys cat)))
        else Inl (QueryError ''Table does not exist''))"

definition primary :: "catalog \<Rightarrow> string \<Rightarrow> error + jsval" where
  "primary cat table =
    (case raw_show_keys_primary cat table of
      Inl e \<Rightarrow> Inl e
    | Inr rows \<Rightarrow>
        (case rows of
          [] \<Rightarrow> Inl (TypeError ''Cannot read property Column_name of undefined'')
        | r # _ \<Rightarrow> Inr (get r ''Column_name'')))"

section \<open>The queries read over the catalog's rows\<close>

text \<open>
  What the two queries with a \<open>where\<close> on the table's name answer, written over the rows
  of the catalog instead of over column names. The lemmas of the next sections prove
  that running the builders gives exactly these rows.
\<close>

definition tableInfo_selected :: "catalog \<Rightarrow> string option \<Rightarrow> tables_row \<Rightarrow> bool" where
  "tableInfo_selected cat table t \<longleftrightarrow>
     t_TABLE_SCHEMA t = database cat \<and> t_TABLE_TYPE t = ''BASE TABLE'' \<and>
     (if truthy (arg table) then Some (t_TABLE_NAME t) = table else True)"

definition raw_table :: "tables_row \<Rightarrow> obj" where
  "raw_table t =
    [(''TABLE_NAME'', JStr (t_TABLE_NAME t)),
     (''ENGINE'', JStr (t_ENGINE t)),
     (''TABLE_SCHEMA'', JStr (t_TABLE_SCHEMA t)),
     (''TABLE_COLLATION'', JStr (t_TABLE_COLLATION t)),
     (''TABLE_COMMENT'', opt_str (t_TABLE_COMMENT t))]"

definition tableInfo_rows :: "catalog \<Rightarrow> string option \<Rightarrow> obj list" where
  "tableInfo_rows cat table = map raw_table (filter (tableInfo_selected cat table) (info_tables cat))"

text \<open>
  A row of the joined views: a row of \<open>COLUMNS\<close>, with a row of \<open>KEY_COLUMN_USAGE\<close> and a
  row of \<open>REFERENTIAL_CONSTRAINTS\<close> where the left joins found one.
\<close>

type_synonym joined =
  "columns_row \<times> key_column_usage_row option \<times> referential_constraints_row option"

definition key_usage_on :: "columns_row \<Rightarrow> key_column_usage_row \<Rightarrow> bool" where
  "key_usage_on c k \<longleftrightarrow>
     fk_COLUMN_NAME k = c_COLUMN_NAME c \<and> fk_CONSTRAINT_SCHEMA k = c_TABLE_SCHEMA c"

definition constraint_on :: "key_column_usage_row \<Rightarrow> referential_constraints_row \<Rightarrow> bool" where
  "constraint_on k x \<longleftrightarrow>
     rc_TABLE_NAME x = fk_TABLE_NAME k \<and> rc_CONSTRAINT_NAME x = fk_CONSTRAINT_NAME k \<and>
     rc_CONSTRAINT_SCHEMA x = fk_CONSTRAINT_SCHEMA k"

definition or_none :: "'a list \<Rightarrow> 'a option list" where
  "or_none xs = (case xs of [] \<Rightarrow> [None] | y # ys \<Rightarrow> map Some (y # ys))"

definition key_options :: "catalog \<Rightarrow> columns_row \<Rightarrow> key_column_usage_row option list" where
  "key_options cat c = or_none (filter (key_usage_on c) (info_key_column_usage cat))"

definition constraint_options ::
  "catalog \<Rightarrow> key_column_usage_row option \<Rightarrow> referential_constraints_row option list" where
  "constraint_options cat ko =
    (case ko of
      None \<Rightarrow> [None]
    | Some k \<Rightarrow> or_none (filter (constraint_on k) (info_referential_constraints cat)))"

definition joined_rows :: "catalog \<Rightarrow> joined list" where
  "joined_rows cat =
    concat (map (\<lambda>c.
      concat (map (\<lambda>ko. map (\<lambda>xo. (c, ko, xo)) (constraint_options cat ko))
        (key_options cat c))) (info_columns cat))"

definition c_part :: "columns_row \<Rightarrow> row" where
  "c_part c = qualify ''c'' (cells_of_column c)"

definition fk_part :: "key_column_usage_row option \<Rightarrow> row" where
  "fk_part ko =
    (case ko of
      None \<Rightarrow> null_row ''fk'' KEY_COLUMN_USAGE
    | Some k \<Rightarrow> qualify ''fk'' (cells_of_key_usage k))"

definition rc_part :: "referential_constraints_row option \<Rightarrow> row" where
  "rc_part xo =
    (case xo of
      None \<Rightarrow> null_row ''rc'' REFERENTIAL_CONSTRAINTS
    | Some x \<Rightarrow> qualify ''rc'' (cells_of_constraint x))"

definition row_of :: "joined \<Rightarrow> row" where
  "row_of j = (case j of (c, ko, xo) \<Rightarrow> c_part c @ fk_part ko @ rc_part xo)"

definition raw_column :: "joined \<Rightarrow> obj" where
  "raw_column j =
    (case j of (c, ko, xo) \<Rightarrow>
      [(''TABLE_NAME'', JStr (c_TABLE_NAME c)),
       (''COLUMN_NAME'', JStr (c_COLUMN_NAME c)),
       (''COLUMN_DEFAULT'', c_COLUMN_DEFAULT c),
       (''DATA_TYPE'', JStr (c_DATA_TYPE c)),
       (''CHARACTER_MAXIMUM_LENGTH'', opt_num (c_CHARACTER_MAXIMUM_LENGTH c)),
       (''IS_NULLABLE'', JBool (c_IS_NULLABLE c)),
       (''COLUMN_KEY'', opt_str (c_COLUMN_KEY c)),
       (''EXTRA'', opt_str (c_EXTRA c)),
       (''COLLATION_NAME'', opt_str (c_COLLATION_NAME c)),
       (''COLUMN_COMMENT'', opt_str (c_COLUMN_COMMENT c)),
       (''REFERENCED_TABLE_NAME'',
          case ko of None \<Rightarrow> JNull | Some k \<Rightarrow> opt_str (fk_REFERENCED_TABLE_NAME k)),
       (''REFERENCED_COLUMN_NAME'',
          case ko of None \<Rightarrow> JNull | Some k \<Rightarrow> opt_str (fk_REFERENCED_COLUMN_NAME k)),
       (''CONSTRAINT_NAME'',
          case ko of None \<Rightarrow> JNull | Some k \<Rightarrow> JStr (fk_CONSTRAINT_NAME k)),
       (''UPDATE_RULE'', case xo of None \<Rightarrow> JNull | Some x \<Rightarrow> JStr (rc_UPDATE_RULE x)),
       (''DELETE_RULE'', case xo of None \<Rightarrow> JNull | Some x \<Rightarrow> JStr (rc_DELETE_RULE x)),
       (''MATCH_OPTION'', case xo of None \<Rightarrow> JNull | Some x \<Rightarrow> JStr (rc_MATCH_OPTION x))])"

definition selected :: "catalog \<Rightarrow> string option \<Rightarrow> string option \<Rightarrow> joined \<Rightarrow> bool" where
  "selected cat table column j \<longleftrightarrow>
     c_TABLE_SCHEMA (fst j) = database cat \<and>
     (if truthy (arg table) then Some (c_TABLE_NAME (fst j)) = table else True) \<and>
     (if truthy (arg column) then Some (c_COLUMN_NAME (fst j)) = column else True)"

definition columnInfo_rows :: "catalog \<Rightarrow> string option \<Rightarrow> string option \<Rightarrow> obj list" where
  "columnInfo_rows cat table column =
     map raw_column (filter (selected cat table column) (joined_rows cat))"

text \<open>The columns in scope of the query of \<open>columnInfo\<close>: those of its three views.\<close>

definition joined_scope :: "colref list" where
  "joined_scope =
     map (Pair ''c'') (view_columns COLUMNS)
     @ map (Pair ''fk'') (view_columns KEY_COLUMN_USAGE)
     @ map (Pair ''rc'') (view_columns REFERENTIAL_CONSTRAINTS)"

section \<open>What the specification speaks of\<close>

text \<open>
  The notions the specification's sentences use, over the catalog: the base tables of
  the selected schema, a column that exists in a table of the selected schema, the
  column a table declares as its primary key (the key-usage row of the constraint named
  \<open>PRIMARY\<close>), and a \<open>Column\<close> whose two foreign-key fields are both there or both absent.
\<close>

definition base_tables :: "catalog \<Rightarrow> string list" where
  "base_tables cat =
    map t_TABLE_NAME
      (filter (\<lambda>t. t_TABLE_SCHEMA t = database cat \<and> t_TABLE_TYPE t = ''BASE TABLE'')
        (info_tables cat))"

definition column_exists :: "catalog \<Rightarrow> string \<Rightarrow> string \<Rightarrow> bool" where
  "column_exists cat table column =
    list_ex (\<lambda>c. c_TABLE_SCHEMA c = database cat \<and> c_TABLE_NAME c = table \<and>
                 c_COLUMN_NAME c = column) (info_columns cat)"

definition declared_primary_key :: "catalog \<Rightarrow> string \<Rightarrow> string \<Rightarrow> bool" where
  "declared_primary_key cat table column =
    list_ex (\<lambda>k. fk_CONSTRAINT_SCHEMA k = database cat \<and> fk_TABLE_NAME k = table \<and>
                 fk_COLUMN_NAME k = column \<and> fk_CONSTRAINT_NAME k = ''PRIMARY'')
      (info_key_column_usage cat)"

text \<open>
  A table of the selected database, a row of the key listing that is a row of that
  table's primary key, and a table name that is one plain identifier: it has no dot and
  no \<open>" as "\<close> in it, no blank at either end, and is not \<open>*\<close>.
\<close>

definition table_exists :: "catalog \<Rightarrow> string \<Rightarrow> bool" where
  "table_exists cat table =
    list_ex (\<lambda>t. t_TABLE_SCHEMA t = database cat \<and> t_TABLE_NAME t = table) (info_tables cat)"

definition primary_key_row :: "catalog \<Rightarrow> string \<Rightarrow> keys_row \<Rightarrow> bool" where
  "primary_key_row cat table k \<longleftrightarrow>
     k_Schema k = database cat \<and> k_Table k = table \<and> k_Key_name k = ''PRIMARY''"

definition plain_identifier :: "string \<Rightarrow> bool" where
  "plain_identifier n \<longleftrightarrow>
     CHR ''.'' \<notin> set n \<and> \<not> contains '' AS '' (norm n) \<and> trim n = n \<and> n \<noteq> ''*''"

definition absent :: "jsval \<Rightarrow> bool" where
  "absent v \<longleftrightarrow> v = JNull \<or> v = JUndefined"

definition foreign_key_paired :: "Column \<Rightarrow> bool" where
  "foreign_key_paired c \<longleftrightarrow>
     absent (Column_foreign_key_table c) = absent (Column_foreign_key_column c)"

text \<open>
  In the catalog of the database, a key-usage row names a referenced table exactly when
  it names a referenced column: both for a foreign key, neither for any other key.
\<close>

definition key_usage_wellformed :: "catalog \<Rightarrow> bool" where
  "key_usage_wellformed cat =
    list_all (\<lambda>k. (fk_REFERENCED_TABLE_NAME k = None) = (fk_REFERENCED_COLUMN_NAME k = None))
      (info_key_column_usage cat)"

section \<open>Example catalogs\<close>

text \<open>
  The scenario of the specification: \<open>users(id INT PRIMARY KEY AUTO_INCREMENT,
  name VARCHAR(255), org_id INT REFERENCES orgs(id))\<close> and \<open>orgs(id INT PRIMARY KEY)\<close>
  in the database \<open>app\<close>.
\<close>

definition users_table :: tables_row where
  "users_table =
    \<lparr>t_TABLE_SCHEMA = ''app'', t_TABLE_NAME = ''users'', t_TABLE_TYPE = ''BASE TABLE'',
     t_ENGINE = ''InnoDB'', t_TABLE_COLLATION = ''utf8mb4_general_ci'',
     t_TABLE_COMMENT = Some []\<rparr>"

definition orgs_table :: tables_row where
  "orgs_table = users_table\<lparr>t_TABLE_NAME := ''orgs''\<rparr>"

definition int_column :: "string \<Rightarrow> string \<Rightarrow> columns_row" where
  "int_column table column =
    \<lparr>c_TABLE_SCHEMA = ''app'', c_TABLE_NAME = table, c_COLUMN_NAME = column,
     c_COLUMN_DEFAULT = JNull, c_DATA_TYPE = ''int'', c_CHARACTER_MAXIMUM_LENGTH = None,
     c_IS_NULLABLE = True, c_COLUMN_KEY = None, c_EXTRA = Some [], c_COLLATION_NAME = None,
     c_COLUMN_COMMENT = Some []\<rparr>"

definition users_id :: columns_row where
  "users_id =
    (int_column ''users'' ''id'')
      \<lparr>c_IS_NULLABLE := False, c_COLUMN_KEY := Some ''PRI'', c_EXTRA := Some ''auto_increment''\<rparr>"

definition users_name :: columns_row where
  "users_name =
    (int_column ''users'' ''name'')
      \<lparr>c_DATA_TYPE := ''varchar'', c_CHARACTER_MAXIMUM_LENGTH := Some 255,
       c_COLLATION_NAME := Some ''utf8mb4_general_ci''\<rparr>"

definition users_org_id :: columns_row where
  "users_org_id = (int_column ''users'' ''org_id'')\<lparr>c_COLUMN_KEY := Some ''MUL''\<rparr>"

definition orgs_id :: columns_row where
  "orgs_id = (int_column ''orgs'' ''id'')\<lparr>c_IS_NULLABLE := False, c_COLUMN_KEY := Some ''PRI''\<rparr>"

definition primary_key_usage :: "string \<Rightarrow> string \<Rightarrow> key_column_usage_row" where
  "primary_key_usage table column =
    \<lparr>fk_CONSTRAINT_SCHEMA = ''app'', fk_CONSTRAINT_NAME = ''PRIMARY'', fk_TABLE_SCHEMA = ''app'',
     fk_TABLE_NAME = table, fk_COLUMN_NAME = column, fk_REFERENCED_TABLE_NAME = None,
     fk_REFERENCED_COLUMN_NAME = None\<rparr>"

definition foreign_key_usage ::
  "string \<Rightarrow> string \<Rightarrow> string \<Rightarrow> string \<Rightarrow> string \<Rightarrow> key_column_usage_row" where
  "foreign_key_usage cname table column rtable rcolumn =
    \<lparr>fk_CONSTRAINT_SCHEMA = ''app'', fk_CONSTRAINT_NAME = cname, fk_TABLE_SCHEMA = ''app'',
     fk_TABLE_NAME = table, fk_COLUMN_NAME = column, fk_REFERENCED_TABLE_NAME = Some rtable,
     fk_REFERENCED_COLUMN_NAME = Some rcolumn\<rparr>"

definition foreign_key_constraint :: "string \<Rightarrow> string \<Rightarrow> string \<Rightarrow> referential_constraints_row" where
  "foreign_key_constraint cname table rtable =
    \<lparr>rc_CONSTRAINT_SCHEMA = ''app'', rc_CONSTRAINT_NAME = cname, rc_TABLE_NAME = table,
     rc_REFERENCED_TABLE_NAME = rtable, rc_UPDATE_RULE = ''RESTRICT'',
     rc_DELETE_RULE = ''RESTRICT'', rc_MATCH_OPTION = ''NONE''\<rparr>"

definition key_listing :: "string \<Rightarrow> string \<Rightarrow> string \<Rightarrow> keys_row" where
  "key_listing table key column =
    \<lparr>k_Schema = ''app'', k_Table = table, k_Key_name = key, k_Seq_in_index = 1,
     k_Column_name = column\<rparr>"

definition scenario :: catalog where
  "scenario =
    \<lparr>database = ''app'',
     info_tables = [users_table, orgs_table],
     info_columns = [users_id, users_name, users_org_id, orgs_id],
     info_key_column_usage =
       [primary_key_usage ''users'' ''id'',
        foreign_key_usage ''users_ibfk_1'' ''users'' ''org_id'' ''orgs'' ''id'',
        primary_key_usage ''orgs'' ''id''],
     info_referential_constraints = [foreign_key_constraint ''users_ibfk_1'' ''users'' ''orgs''],
     show_keys =
       [key_listing ''users'' ''PRIMARY'' ''id'',
        key_listing ''users'' ''users_ibfk_1'' ''org_id'',
        key_listing ''orgs'' ''PRIMARY'' ''id'']\<rparr>"

text \<open>
  Two tables with a column of the same name: \<open>users(id INT PRIMARY KEY)\<close> and
  \<open>logs(id INT)\<close>, the second without any key.
\<close>

definition logs_table :: tables_row where
  "logs_table = users_table\<lparr>t_TABLE_NAME := ''logs''\<rparr>"

definition shared_column_name :: catalog where
  "shared_column_name =
    \<lparr>database = ''app'',
     info_tables = [users_table, logs_table],
     info_columns = [users_id, int_column ''logs'' ''id''],
     info_key_column_usage = [primary_key_usage ''users'' ''id''],
     info_referential_constraints = [],
     show_keys = [key_listing ''users'' ''PRIMARY'' ''id'']\<rparr>"

text \<open>
  A column that is its table's primary key and a foreign key at once:
  \<open>profiles(user_id INT PRIMARY KEY REFERENCES users(id))\<close>. The catalog lists the
  key-usage row of the foreign key before the one of the primary key (the query of
  \<open>columnInfo\<close> asks for no order).
\<close>

definition profiles_table :: tables_row where
  "profiles_table = users_table\<lparr>t_TABLE_NAME := ''profiles''\<rparr>"

definition profiles_user_id :: columns_row where
  "profiles_user_id =
    (int_column ''profiles'' ''user_id'')\<lparr>c_IS_NULLABLE := False, c_COLUMN_KEY := Some ''PRI''\<rparr>"

definition primary_and_foreign :: catalog where
  "primary_and_foreign =
    \<lparr>database = ''app'',
     info_tables = [users_table, profiles_table],
     info_columns = [users_id, profiles_user_id],
     info_key_column_usage =
       [primary_key_usage ''users'' ''id'',
        foreign_key_usage ''FK_profiles_user'' ''profiles'' ''user_id'' ''users'' ''id'',
        primary_key_usage ''profiles'' ''user_id''],
     info_referential_constraints =
       [foreign_key_constraint ''FK_profiles_user'' ''profiles'' ''users''],
     show_keys =
       [key_listing ''users'' ''PRIMARY'' ''id'',
        key_listing ''profiles'' ''PRIMARY'' ''user_id'',
        key_listing ''profiles'' ''FK_profiles_user'' ''user_id'']\<rparr>"

text \<open>
  Tables whose names are not plain identifiers, each with the primary key \<open>id\<close>:
  \<open>v1.users\<close>, \<open>users as u\<close>, \<open>users\<close> with a blank in front, and \<open>*\<close>.
\<close>

definition odd_names :: catalog where
  "odd_names =
    \<lparr>database = ''app'',
     info_tables =
       [users_table\<lparr>t_TABLE_NAME := ''v1.users''\<rparr>,
        users_table\<lparr>t_TABLE_NAME := ''users as u''\<rparr>,
        users_table\<lparr>t_TABLE_NAME := '' users''\<rparr>,
        users_table\<lparr>t_TABLE_NAME := ''*''\<rparr>],
     info_columns = [],
     info_key_column_usage = [],
     info_referential_constraints = [],
     show_keys =
       [key_listing ''v1.users'' ''PRIMARY'' ''id'',
        key_listing ''users as u'' ''PRIMARY'' ''id'',
        key_listing '' users'' ''PRIMARY'' ''id'',
        key_listing ''*'' ''PRIMARY'' ''id'']\<rparr>"

section \<open>Running the builders\<close>

text \<open>
  Column names as the source writes them, brought to the catalog's spelling once.
\<close>

lemma norm_names [simp]:
  "norm ''table_namename'' = ''TABLE_NAMENAME''"
  "norm ''table_type'' = ''TABLE_TYPE''"
  "norm ''table_schema'' = ''TABLE_SCHEMA''"
  "norm ''table_name'' = ''TABLE_NAME''"
  "norm ''column_name'' = ''COLUMN_NAME''"
  "norm ''TABLE_SCHEMA'' = ''TABLE_SCHEMA''"
  "norm ''TABLE_NAME'' = ''TABLE_NAME''"
  "norm ''TABLE_TYPE'' = ''TABLE_TYPE''"
  "norm ''ENGINE'' = ''ENGINE''"
  "norm ''TABLE_COLLATION'' = ''TABLE_COLLATION''"
  "norm ''TABLE_COMMENT'' = ''TABLE_COMMENT''"
  "norm ''COLUMN_NAME'' = ''COLUMN_NAME''"
  "norm ''COLUMN_DEFAULT'' = ''COLUMN_DEFAULT''"
  "norm ''DATA_TYPE'' = ''DATA_TYPE''"
  "norm ''CHARACTER_MAXIMUM_LENGTH'' = ''CHARACTER_MAXIMUM_LENGTH''"
  "norm ''IS_NULLABLE'' = ''IS_NULLABLE''"
  "norm ''COLUMN_KEY'' = ''COLUMN_KEY''"
  "norm ''EXTRA'' = ''EXTRA''"
  "norm ''COLLATION_NAME'' = ''COLLATION_NAME''"
  "norm ''COLUMN_COMMENT'' = ''COLUMN_COMMENT''"
  "norm ''CONSTRAINT_SCHEMA'' = ''CONSTRAINT_SCHEMA''"
  "norm ''CONSTRAINT_NAME'' = ''CONSTRAINT_NAME''"
  "norm ''REFERENCED_TABLE_NAME'' = ''REFERENCED_TABLE_NAME''"
  "norm ''REFERENCED_COLUMN_NAME'' = ''REFERENCED_COLUMN_NAME''"
  "norm ''UPDATE_RULE'' = ''UPDATE_RULE''"
  "norm ''DELETE_RULE'' = ''DELETE_RULE''"
  "norm ''MATCH_OPTION'' = ''MATCH_OPTION''"
  by code_simp+

lemmas builder_defs = knex_select_def knex_count_def knex_from_def knex_leftJoin_def
  knex_where_def knex_andWhere_def knex_first_def

lemmas run_defs = await_def run_def unresolved_def refs_def scope_def matches_def
  where_holds_def on_holds_def lookup_def qualify_def null_row_def sql_eq_def project_def
  left_join_def get_def

lemmas cells_defs = cells_of_table_def cells_of_column_def cells_of_key_usage_def
  cells_of_constraint_def

lemmas row_defs = matches_def lookup_def qualify_def null_row_def sql_eq_def cells_defs

lemma on_fk: "on_holds fk_on (c_part c @ qualify ''fk'' (cells_of_key_usage k)) = key_usage_on c k"
  by (simp add: on_holds_def fk_on_def row_defs c_part_def key_usage_on_def)

lemma on_rc: "on_holds rc_on (c_part c @ fk_part (Some k) @ qualify ''rc'' (cells_of_constraint x))
   = constraint_on k x"
  by (simp add: on_holds_def rc_on_def row_defs c_part_def fk_part_def constraint_on_def)

lemma on_rc_null: "on_holds rc_on (c_part c @ fk_part None @ qualify ''rc'' (cells_of_constraint x))
   = False"
  by (simp add: on_holds_def rc_on_def row_defs c_part_def fk_part_def)

lemma left_join_single:
  "left_join cat [l] (v, a, conds) =
    (case filter (on_holds conds) (map (\<lambda>r. l @ qualify a r) (view_rows cat v)) of
      [] \<Rightarrow> [l @ null_row a v]
    | m # ms \<Rightarrow> m # ms)"
  by (simp add: left_join_def)

lemma left_join_append:
  "left_join cat (xs @ ys) j = left_join cat xs j @ left_join cat ys j"
  by (cases j) (simp add: left_join_def)

lemma left_join_concat:
  "left_join cat (concat xss) j = concat (map (\<lambda>xs. left_join cat xs j) xss)"
  by (induction xss) (simp_all add: left_join_append, simp add: left_join_def split: prod.split)

lemma left_join_map:
  "left_join cat (map f xs) j = concat (map (\<lambda>x. left_join cat [f x] j) xs)"
  by (cases j) (simp add: left_join_def o_def)

lemma case_map_list:
  "(case map f ys of [] \<Rightarrow> [d] | m # ms \<Rightarrow> m # ms) = map (\<lambda>yo. case yo of None \<Rightarrow> d | Some y \<Rightarrow> f y) (or_none ys)"
  by (cases ys) (simp_all add: or_none_def)

lemma join_keys:
  "left_join cat [c_part c] (KEY_COLUMN_USAGE, ''fk'', fk_on) =
     map (\<lambda>ko. c_part c @ fk_part ko) (key_options cat c)"
proof -
  have "filter (on_holds fk_on)
          (map (\<lambda>r. c_part c @ qualify ''fk'' r) (view_rows cat KEY_COLUMN_USAGE)) =
        map (\<lambda>k. c_part c @ qualify ''fk'' (cells_of_key_usage k))
          (filter (key_usage_on c) (info_key_column_usage cat))"
    by (simp add: filter_map o_def on_fk)
  then show ?thesis
    by (simp add: left_join_single case_map_list key_options_def fk_part_def
        split: option.split)
qed

lemma join_constraints:
  "left_join cat [c_part c @ fk_part ko] (REFERENTIAL_CONSTRAINTS, ''rc'', rc_on) =
     map (\<lambda>xo. row_of (c, ko, xo)) (constraint_options cat ko)"
proof (cases ko)
  case None
  have "filter (on_holds rc_on)
          (map (\<lambda>r. (c_part c @ fk_part None) @ qualify ''rc'' r)
            (view_rows cat REFERENTIAL_CONSTRAINTS)) = []"
    by (simp add: filter_map o_def on_rc_null)
  then show ?thesis
    using None
    by (simp add: left_join_single constraint_options_def row_of_def rc_part_def)
next
  case (Some k)
  have "filter (on_holds rc_on)
          (map (\<lambda>r. (c_part c @ fk_part (Some k)) @ qualify ''rc'' r)
            (view_rows cat REFERENTIAL_CONSTRAINTS)) =
        map (\<lambda>x. (c_part c @ fk_part (Some k)) @ qualify ''rc'' (cells_of_constraint x))
          (filter (constraint_on k) (info_referential_constraints cat))"
    by (simp add: filter_map o_def on_rc)
  then show ?thesis
    using Some
    by (simp add: left_join_single case_map_list constraint_options_def row_of_def rc_part_def
        split: option.split)
qed

lemma joined_rows_correct:
  "foldl (left_join cat) (map (qualify ''c'') (view_rows cat COLUMNS))
      [(KEY_COLUMN_USAGE, ''fk'', fk_on), (REFERENTIAL_CONSTRAINTS, ''rc'', rc_on)] =
    map row_of (joined_rows cat)"
proof -
  have first: "left_join cat (map (qualify ''c'') (view_rows cat COLUMNS))
                 (KEY_COLUMN_USAGE, ''fk'', fk_on) =
               concat (map (\<lambda>c. map (\<lambda>ko. c_part c @ fk_part ko) (key_options cat c))
                 (info_columns cat))"
  proof -
    have "left_join cat (map c_part (info_columns cat)) (KEY_COLUMN_USAGE, ''fk'', fk_on) =
          concat (map (\<lambda>c. map (\<lambda>ko. c_part c @ fk_part ko) (key_options cat c))
            (info_columns cat))"
      by (simp only: left_join_map join_keys)
    moreover have "map (qualify ''c'') (view_rows cat COLUMNS) = map c_part (info_columns cat)"
      by (simp add: c_part_def o_def)
    ultimately show ?thesis
      by (simp only:)
  qed
  have "foldl (left_join cat) (map (qualify ''c'') (view_rows cat COLUMNS))
      [(KEY_COLUMN_USAGE, ''fk'', fk_on), (REFERENTIAL_CONSTRAINTS, ''rc'', rc_on)] =
    left_join cat
      (left_join cat (map (qualify ''c'') (view_rows cat COLUMNS))
        (KEY_COLUMN_USAGE, ''fk'', fk_on))
      (REFERENTIAL_CONSTRAINTS, ''rc'', rc_on)"
    by simp
  also have "\<dots> =
    left_join cat
      (concat (map (\<lambda>c. map (\<lambda>ko. c_part c @ fk_part ko) (key_options cat c))
        (info_columns cat)))
      (REFERENTIAL_CONSTRAINTS, ''rc'', rc_on)"
    by (simp only: first)
  also have "\<dots> =
    concat (map (\<lambda>c. concat (map (\<lambda>ko.
      left_join cat [c_part c @ fk_part ko] (REFERENTIAL_CONSTRAINTS, ''rc'', rc_on))
        (key_options cat c))) (info_columns cat))"
    by (simp only: left_join_concat left_join_map map_map o_def)
  also have "\<dots> = map row_of (joined_rows cat)"
    by (simp add: join_constraints joined_rows_def map_concat o_def)
  finally show ?thesis .
qed

lemma lookup_c:
  "lookup (row_of j) (''c'', ''TABLE_SCHEMA'') = Some (JStr (c_TABLE_SCHEMA (fst j)))"
  "lookup (row_of j) (''c'', ''TABLE_NAME'') = Some (JStr (c_TABLE_NAME (fst j)))"
  "lookup (row_of j) (''c'', ''column_name'') = Some (JStr (c_COLUMN_NAME (fst j)))"
  by (cases j; simp add: row_of_def c_part_def row_defs)+

lemma project_row_of:
  "project [qcol ''c'' ''TABLE_NAME'',
                 qcol ''c'' ''COLUMN_NAME'',
                 qcol ''c'' ''COLUMN_DEFAULT'',
                 qcol ''c'' ''DATA_TYPE'',
                 qcol ''c'' ''CHARACTER_MAXIMUM_LENGTH'',
                 qcol ''c'' ''IS_NULLABLE'',
                 qcol ''c'' ''COLUMN_KEY'',
                 qcol ''c'' ''EXTRA'',
                 qcol ''c'' ''COLLATION_NAME'',
                 qcol ''c'' ''COLUMN_COMMENT'',
                 qcol ''fk'' ''REFERENCED_TABLE_NAME'',
                 qcol ''fk'' ''REFERENCED_COLUMN_NAME'',
                 qcol ''fk'' ''CONSTRAINT_NAME'',
                 qcol ''rc'' ''UPDATE_RULE'',
                 qcol ''rc'' ''DELETE_RULE'',
                 qcol ''rc'' ''MATCH_OPTION''] (row_of j) = raw_column j"
proof -
  obtain c ko xo where j: "j = (c, ko, xo)"
    by (cases j)
  show ?thesis
    unfolding j
    by (cases ko; cases xo)
      (simp_all add: project_def raw_column_def row_of_def c_part_def fk_part_def rc_part_def
        row_defs)
qed

lemma where_selected:
  "where_holds
     ([(qcol ''c'' ''TABLE_SCHEMA'', JStr (database cat))]
      @ (if truthy (arg table) then [(qcol ''c'' ''TABLE_NAME'', arg table)] else [])
      @ (if truthy (arg column) then [(qcol ''c'' ''column_name'', arg column)] else []))
     (row_of j) = selected cat table column j"
  by (cases table; cases column)
    (auto simp add: where_holds_def selected_def lookup_c sql_eq_def)

subsection \<open>The query of columnInfo\<close>

lemma columnInfo_query_parts:
  "q_from (columnInfo_query cat table) = Some (COLUMNS, ''c'')"
  "q_joins (columnInfo_query cat table) =
     [(KEY_COLUMN_USAGE, ''fk'', fk_on), (REFERENTIAL_CONSTRAINTS, ''rc'', rc_on)]"
  "q_select (columnInfo_query cat table) = columnInfo_select"
  "q_count (columnInfo_query cat table) = None"
  "q_first (columnInfo_query cat table) = False"
  "q_wheres (columnInfo_query cat table) =
     (qcol ''c'' ''TABLE_SCHEMA'', JStr (database cat))
     # (if truthy (arg table) then [(qcol ''c'' ''TABLE_NAME'', arg table)] else [])"
  by (simp_all add: columnInfo_query_def builder_defs Let_def)

lemma resolved_select:
  "filter (\<lambda>ref. \<not> list_ex (matches ref) joined_scope)
     (columnInfo_select
      @ concat (map (\<lambda>cond. [fst cond, snd cond]) fk_on)
      @ concat (map (\<lambda>cond. [fst cond, snd cond]) rc_on)) = []"
  by (simp add: joined_scope_def columnInfo_select_def fk_on_def rc_on_def matches_def)

lemma resolved_where:
  "list_ex (matches (''c'', ''TABLE_SCHEMA'')) joined_scope"
  "list_ex (matches (''c'', ''TABLE_NAME'')) joined_scope"
  "list_ex (matches (''c'', ''column_name'')) joined_scope"
  by (simp_all add: joined_scope_def matches_def)

lemma unresolved_joined:
  assumes "q_from q = Some (COLUMNS, ''c'')"
    and "q_joins q = [(KEY_COLUMN_USAGE, ''fk'', fk_on), (REFERENTIAL_CONSTRAINTS, ''rc'', rc_on)]"
    and "q_select q = columnInfo_select"
    and "set (map fst (q_wheres q)) \<subseteq>
           {(''c'', ''TABLE_SCHEMA''), (''c'', ''TABLE_NAME''), (''c'', ''column_name'')}"
  shows "unresolved q = []"
proof -
  have scope: "scope q = joined_scope"
    by (simp add: scope_def joined_scope_def assms(1,2))
  have refs: "refs q =
      (columnInfo_select
       @ concat (map (\<lambda>cond. [fst cond, snd cond]) fk_on)
       @ concat (map (\<lambda>cond. [fst cond, snd cond]) rc_on))
      @ map fst (q_wheres q)"
    by (simp add: refs_def assms(2,3))
  have "filter (\<lambda>ref. \<not> list_ex (matches ref) joined_scope) (map fst (q_wheres q)) = []"
    using assms(4) resolved_where by (auto simp add: filter_empty_conv)
  then show ?thesis
    using resolved_select by (simp add: unresolved_def scope refs)
qed

lemma run_joined:
  assumes "q_from q = Some (COLUMNS, ''c'')"
    and "q_joins q = [(KEY_COLUMN_USAGE, ''fk'', fk_on), (REFERENTIAL_CONSTRAINTS, ''rc'', rc_on)]"
    and "q_select q = columnInfo_select"
    and "q_count q = None"
    and "unresolved q = []"
  shows "run cat q =
    Inr (map raw_column (filter (\<lambda>j. where_holds (q_wheres q) (row_of j)) (joined_rows cat)))"
proof -
  have "run cat q =
    Inr (map (project columnInfo_select)
      (filter (where_holds (q_wheres q))
        (foldl (left_join cat) (map (qualify ''c'') (view_rows cat COLUMNS))
          [(KEY_COLUMN_USAGE, ''fk'', fk_on), (REFERENTIAL_CONSTRAINTS, ''rc'', rc_on)])))"
    by (simp only: run_def assms option.case prod.case list.case Let_def)
  also have "\<dots> =
    Inr (map (project columnInfo_select)
      (filter (where_holds (q_wheres q)) (map row_of (joined_rows cat))))"
    by (simp only: joined_rows_correct)
  also have "\<dots> =
    Inr (map raw_column (filter (\<lambda>j. where_holds (q_wheres q) (row_of j)) (joined_rows cat)))"
    by (simp add: filter_map o_def project_row_of [folded columnInfo_select_def])
  finally show ?thesis .
qed

lemma await_columnInfo:
  "await cat
     (if truthy (arg column)
      then knex_first (knex_andWhere [(qcol ''c'' ''column_name'', arg column)]
             (columnInfo_query cat table))
      else columnInfo_query cat table) =
   Inr (if truthy (arg column)
        then (case columnInfo_rows cat table column of [] \<Rightarrow> Undefined | r # _ \<Rightarrow> Row r)
        else Rows (columnInfo_rows cat table column))"
proof -
  define q where
    "q = (if truthy (arg column)
          then knex_first (knex_andWhere [(qcol ''c'' ''column_name'', arg column)]
                 (columnInfo_query cat table))
          else columnInfo_query cat table)"
  have parts: "q_from q = Some (COLUMNS, ''c'')"
    "q_joins q = [(KEY_COLUMN_USAGE, ''fk'', fk_on), (REFERENTIAL_CONSTRAINTS, ''rc'', rc_on)]"
    "q_select q = columnInfo_select"
    "q_count q = None"
    "q_first q = truthy (arg column)"
    and wheres: "q_wheres q =
      [(qcol ''c'' ''TABLE_SCHEMA'', JStr (database cat))]
      @ (if truthy (arg table) then [(qcol ''c'' ''TABLE_NAME'', arg table)] else [])
      @ (if truthy (arg column) then [(qcol ''c'' ''column_name'', arg column)] else [])"
    by (simp_all add: q_def columnInfo_query_parts knex_first_def knex_andWhere_def knex_where_def)
  have "unresolved q = []"
    by (rule unresolved_joined) (auto simp add: parts wheres)
  then have "run cat q = Inr (columnInfo_rows cat table column)"
    by (simp only: run_joined [OF parts(1-4)] wheres where_selected columnInfo_rows_def)
  then show ?thesis
    unfolding q_def [symmetric] by (simp add: await_def parts(5))
qed

lemma columnInfo_typed:
  "columnInfo cat table column =
    (if truthy (arg column) then
       (case columnInfo_rows cat table column of
          [] \<Rightarrow> Inl (TypeError ''Cannot read property COLUMN_NAME of undefined'')
        | r # _ \<Rightarrow> Inr (One (column_of_raw_single r)))
     else Inr (Many (map column_of_raw_list (columnInfo_rows cat table column))))"
proof (cases "truthy (arg column)")
  case True
  with await_columnInfo [of cat column table] have "await cat
      (knex_first (knex_andWhere [(qcol ''c'' ''column_name'', arg column)]
        (columnInfo_query cat table))) =
      Inr (case columnInfo_rows cat table column of [] \<Rightarrow> Undefined | r # _ \<Rightarrow> Row r)"
    by simp
  with True show ?thesis
    by (simp add: columnInfo_def split: list.split)
next
  case False
  with await_columnInfo [of cat column table] have "await cat (columnInfo_query cat table) =
      Inr (Rows (columnInfo_rows cat table column))"
    by simp
  with False show ?thesis
    by (simp add: columnInfo_def)
qed

subsection \<open>The query of tableInfo\<close>

lemma table_row:
  "where_holds
     ([(col ''table_schema'', JStr (database cat)), (col ''table_type'', JStr ''BASE TABLE'')]
      @ (if truthy (arg table) then [(col ''table_name'', arg table)] else []))
     (qualify [] (cells_of_table t)) = tableInfo_selected cat table t"
  "project
     [col ''TABLE_NAME'', col ''ENGINE'', col ''TABLE_SCHEMA'', col ''TABLE_COLLATION'',
      col ''TABLE_COMMENT'']
     (qualify [] (cells_of_table t)) = raw_table t"
  by (cases table;
      simp add: where_holds_def project_def row_defs tableInfo_selected_def raw_table_def)+

lemma tableInfo_typed:
  "tableInfo cat table =
    (if truthy (arg table) then
       (case tableInfo_rows cat table of
          [] \<Rightarrow> Inl (TypeError ''Cannot read property TABLE_NAME of undefined'')
        | r # _ \<Rightarrow> Inr (One (table_of_raw r)))
     else Inr (Many (map table_of_raw (tableInfo_rows cat table))))"
proof -
  define q where
    "q = (if truthy (arg table)
          then knex_first (knex_andWhere [(col ''table_name'', arg table)] (tableInfo_query cat))
          else tableInfo_query cat)"
  have parts: "q_from q = Some (TABLES, [])" "q_joins q = []" "q_count q = None"
    "q_select q =
      [col ''TABLE_NAME'', col ''ENGINE'', col ''TABLE_SCHEMA'', col ''TABLE_COLLATION'',
       col ''TABLE_COMMENT'']"
    "q_first q = truthy (arg table)"
    and wheres: "q_wheres q =
      [(col ''table_schema'', JStr (database cat)), (col ''table_type'', JStr ''BASE TABLE'')]
      @ (if truthy (arg table) then [(col ''table_name'', arg table)] else [])"
    by (simp_all add: q_def tableInfo_query_def builder_defs Let_def)
  have "unresolved q = []"
    by (simp add: unresolved_def refs_def scope_def parts wheres matches_def)
  then have "run cat q =
      Inr (map (project (q_select q))
        (filter (where_holds (q_wheres q)) (map (qualify []) (view_rows cat TABLES))))"
    by (simp add: run_def parts(1-3))
  also have "\<dots> = Inr (tableInfo_rows cat table)"
  proof -
    have "where_holds (q_wheres q) (qualify [] (cells_of_table t)) = tableInfo_selected cat table t"
      for t
      unfolding wheres by (rule table_row(1))
    moreover have "project (q_select q) (qualify [] (cells_of_table t)) = raw_table t" for t
      unfolding parts(4) by (rule table_row(2))
    ultimately show ?thesis
      by (simp add: filter_map o_def tableInfo_rows_def)
  qed
  finally have await: "await cat q =
      Inr (if truthy (arg table)
           then (case tableInfo_rows cat table of [] \<Rightarrow> Undefined | r # _ \<Rightarrow> Row r)
           else Rows (tableInfo_rows cat table))"
    by (simp add: await_def parts(5))
  show ?thesis
  proof (cases "truthy (arg table)")
    case True
    with await have "await cat
        (knex_first (knex_andWhere [(col ''table_name'', arg table)] (tableInfo_query cat))) =
        Inr (case tableInfo_rows cat table of [] \<Rightarrow> Undefined | r # _ \<Rightarrow> Row r)"
      by (simp add: q_def)
    with True show ?thesis
      by (simp add: tableInfo_def split: list.split)
  next
    case False
    with await have "await cat (tableInfo_query cat) = Inr (Rows (tableInfo_rows cat table))"
      by (simp add: q_def)
    with False show ?thesis
      by (simp add: tableInfo_def)
  qed
qed

section \<open>Listing tables and testing existence\<close>

lemmas scenario_defs = scenario_def users_table_def orgs_table_def users_id_def users_name_def
  users_org_id_def orgs_id_def int_column_def primary_key_usage_def foreign_key_usage_def
  foreign_key_constraint_def key_listing_def

text \<open>
  The select list of \<open>tables\<close> names the column \<open>table_namename\<close>, which the view does
  not have: the database refuses the query, whatever the catalog holds.
\<close>

lemma tables_rejected: "tables cat = Inl (QueryError ''Unknown column table_namename'')"
  by (simp add: tables_def builder_defs run_defs)

text \<open>
  \<open>hasTable\<close> and \<open>hasColumn\<close> read \<open>count\<close> off the builder, where it is the builder's
  own method: a function value, which is truthy.
\<close>

lemma hasTable_always: "hasTable cat table = Inr True"
  by (simp add: hasTable_def builder_get_def builder_methods_def)

lemma hasColumn_always: "hasColumn cat table column = Inr True"
  by (simp add: hasColumn_def builder_get_def builder_methods_def)

text \<open>
  Had the two builders been awaited: the query of \<open>hasTable\<close> counts the rows of the
  table's name in the selected schema, and the query of \<open>hasColumn\<close> is refused, since
  it filters the view of the tables on \<open>column_name\<close>.
\<close>

lemma hasTable_query_counts:
  "await cat (hasTable_query cat table) =
    Inr (Row [(''count'',
      JNum (int (length (filter (\<lambda>t. t_TABLE_SCHEMA t = database cat \<and> t_TABLE_NAME t = table)
        (info_tables cat)))))])"
  by (simp add: hasTable_query_def builder_defs run_defs Let_def filter_map o_def cells_of_table_def)

lemma hasColumn_query_rejected:
  "await cat (hasColumn_query cat table column) = Inl (QueryError ''Unknown column column_name'')"
  by (simp add: hasColumn_query_def builder_defs run_defs)

lemma base_tables_scenario: "base_tables scenario = [''users'', ''orgs'']"
  by (simp add: base_tables_def scenario_defs)

text \<open>
  C3. The specification asks that \<open>tables()\<close> return exactly the names for which
  \<open>hasTable\<close> is true. In the code, for every catalog and every name, \<open>hasTable\<close>
  answers true, and \<open>tables()\<close> returns no name at all: its query is refused.
\<close>

theorem hasTable_true_tables_rejected:
  "hasTable cat n = Inr True \<and> tables cat = Inl (QueryError ''Unknown column table_namename'')"
  by (simp add: hasTable_always tables_rejected)

text \<open>
  C7. The specification asks that \<open>tables()\<close> return the names of the base tables of the
  selected schema. In the scenario the base tables are \<open>users\<close> and \<open>orgs\<close>, and
  \<open>tables()\<close> is rejected with the database's error for the unknown column.
\<close>

theorem tables_scenario_rejected:
  "tables scenario = Inl (QueryError ''Unknown column table_namename'') \<and>
   base_tables scenario = [''users'', ''orgs'']"
  by (simp add: tables_rejected base_tables_scenario)

text \<open>
  C4. The specification asks that \<open>hasColumn\<close> be true exactly for the columns that
  exist, and false for \<open>hasColumn("users", "missing_col")\<close>. In the scenario \<open>users\<close>
  has no column \<open>missing_col\<close>, and \<open>hasColumn\<close> answers true.
\<close>

theorem hasColumn_missing_col_true:
  "hasColumn scenario ''users'' ''missing_col'' = Inr True \<and>
   \<not> column_exists scenario ''users'' ''missing_col''"
  by (simp add: hasColumn_always column_exists_def scenario_defs)

section \<open>Table and column information\<close>

text \<open>
  C1, as the specification states it, fails: for a name that no table of the selected
  schema has, \<open>tableInfo\<close> returns no "not found" result. In the scenario,
  \<open>tableInfo("accounts")\<close> is rejected with a \<open>TypeError\<close>.
\<close>

theorem tableInfo_not_found_counterexample:
  "''accounts'' \<notin> set (base_tables scenario) \<and>
   tableInfo scenario (Some ''accounts'') =
     Inl (TypeError ''Cannot read property TABLE_NAME of undefined'')"
proof -
  have "''accounts'' \<notin> set (base_tables scenario)"
    by (simp add: base_tables_scenario)
  moreover have "tableInfo scenario (Some ''accounts'') =
     Inl (TypeError ''Cannot read property TABLE_NAME of undefined'')"
    by (simp add: tableInfo_typed tableInfo_rows_def tableInfo_selected_def scenario_defs)
  ultimately show ?thesis
    by simp
qed

text \<open>
  C1, amended. For every non-empty name that is not a base table of the selected schema,
  \<open>tableInfo\<close> returns no result: \<open>first()\<close> answers \<open>undefined\<close>, reading \<open>TABLE_NAME\<close>
  off it throws, and the promise is rejected with that \<open>TypeError\<close>. Nothing in the
  inspector signals "not found".
\<close>

theorem tableInfo_missing_table_throws:
  assumes "table \<noteq> []" and "table \<notin> set (base_tables cat)"
  shows "tableInfo cat (Some table) =
    Inl (TypeError ''Cannot read property TABLE_NAME of undefined'')"
proof -
  have "filter (tableInfo_selected cat (Some table)) (info_tables cat) = []"
    using assms by (auto simp add: filter_empty_conv tableInfo_selected_def base_tables_def)
  then show ?thesis
    using assms(1) by (simp add: tableInfo_typed tableInfo_rows_def)
qed

theorem tableInfo_missing_table_throws_witness:
  "''missing'' \<noteq> [] \<and> ''missing'' \<notin> set (base_tables scenario) \<and>
   tableInfo scenario (Some ''missing'') =
     Inl (TypeError ''Cannot read property TABLE_NAME of undefined'')"
proof -
  have a: "''missing'' \<noteq> []" and b: "''missing'' \<notin> set (base_tables scenario)"
    by (simp_all add: base_tables_scenario)
  from tableInfo_missing_table_throws [OF a b] a b show ?thesis
    by simp
qed

lemmas typed_defs = columnInfo_rows_def joined_rows_def key_options_def constraint_options_def
  or_none_def key_usage_on_def constraint_on_def selected_def raw_column_def

lemmas shared_defs = shared_column_name_def users_table_def logs_table_def users_id_def
  int_column_def primary_key_usage_def key_listing_def

lemmas profiles_defs = primary_and_foreign_def users_table_def profiles_table_def users_id_def
  profiles_user_id_def int_column_def primary_key_usage_def foreign_key_usage_def
  foreign_key_constraint_def key_listing_def

text \<open>
  Every row of the joined views starts from a row of \<open>COLUMNS\<close>, and every row of
  \<open>COLUMNS\<close> is kept: a left join drops none.
\<close>

lemma or_none_not_empty: "or_none xs \<noteq> []"
  by (cases xs) (simp_all add: or_none_def)

lemma set_or_none: "Some x \<in> set (or_none xs) \<longleftrightarrow> x \<in> set xs"
  by (cases xs) (auto simp add: or_none_def)

lemma set_joined_rows:
  "(c, ko, xo) \<in> set (joined_rows cat) \<longleftrightarrow>
     c \<in> set (info_columns cat) \<and> ko \<in> set (key_options cat c) \<and>
     xo \<in> set (constraint_options cat ko)"
  by (auto simp add: joined_rows_def)

lemma joined_rows_column: "j \<in> set (joined_rows cat) \<Longrightarrow> fst j \<in> set (info_columns cat)"
  by (cases j) (simp add: set_joined_rows)

lemma joined_rows_key:
  "(c, Some k, xo) \<in> set (joined_rows cat) \<Longrightarrow> k \<in> set (info_key_column_usage cat)"
  by (simp add: set_joined_rows key_options_def set_or_none)

lemma joined_rows_keeps:
  assumes "c \<in> set (info_columns cat)"
  shows "\<exists>ko xo. (c, ko, xo) \<in> set (joined_rows cat)"
proof -
  obtain ko where ko: "ko \<in> set (key_options cat c)"
    using or_none_not_empty [of "filter (key_usage_on c) (info_key_column_usage cat)"]
    by (cases "key_options cat c") (auto simp add: key_options_def)
  have "constraint_options cat ko \<noteq> []"
    by (cases ko) (simp_all add: constraint_options_def or_none_not_empty)
  then obtain xo where "xo \<in> set (constraint_options cat ko)"
    by (cases "constraint_options cat ko") auto
  with assms ko have "(c, ko, xo) \<in> set (joined_rows cat)"
    by (simp add: set_joined_rows)
  then show ?thesis
    by blast
qed

text \<open>
  C2, as the specification states it, fails: for a column that the table does not have,
  \<open>columnInfo\<close> returns no "not found" result. In the scenario,
  \<open>columnInfo("orgs", "name")\<close> is rejected with a \<open>TypeError\<close>.
\<close>

theorem columnInfo_not_found_counterexample:
  "\<not> column_exists scenario ''orgs'' ''name'' \<and>
   columnInfo scenario (Some ''orgs'') (Some ''name'') =
     Inl (TypeError ''Cannot read property COLUMN_NAME of undefined'')"
proof -
  have "\<not> column_exists scenario ''orgs'' ''name''"
    by (simp add: column_exists_def scenario_defs)
  moreover have "columnInfo scenario (Some ''orgs'') (Some ''name'') =
     Inl (TypeError ''Cannot read property COLUMN_NAME of undefined'')"
    by (simp add: columnInfo_typed typed_defs scenario_defs)
  ultimately show ?thesis
    by simp
qed

text \<open>
  C2, amended. For all non-empty names of a table and of a column that does not exist
  in it, \<open>columnInfo\<close> returns no result: \<open>first()\<close> answers \<open>undefined\<close>, reading
  \<open>COLUMN_NAME\<close> off it throws, and the promise is rejected with that \<open>TypeError\<close>.
\<close>

theorem columnInfo_missing_column_throws:
  assumes "table \<noteq> []" and "column \<noteq> []" and "\<not> column_exists cat table column"
  shows "columnInfo cat (Some table) (Some column) =
    Inl (TypeError ''Cannot read property COLUMN_NAME of undefined'')"
proof -
  have "\<not> selected cat (Some table) (Some column) j" if "j \<in> set (joined_rows cat)" for j
    using joined_rows_column [OF that] assms
    by (auto simp add: selected_def column_exists_def list_ex_iff)
  then have "columnInfo_rows cat (Some table) (Some column) = []"
    by (simp add: columnInfo_rows_def filter_empty_conv)
  with assms(2) show ?thesis
    by (simp add: columnInfo_typed)
qed

theorem columnInfo_missing_column_throws_witness:
  "''users'' \<noteq> [] \<and> ''missing_col'' \<noteq> [] \<and> \<not> column_exists scenario ''users'' ''missing_col'' \<and>
   columnInfo scenario (Some ''users'') (Some ''missing_col'') =
     Inl (TypeError ''Cannot read property COLUMN_NAME of undefined'')"
proof -
  have a: "''users'' \<noteq> []" and b: "''missing_col'' \<noteq> []"
    and c: "\<not> column_exists scenario ''users'' ''missing_col''"
    by (simp_all add: column_exists_def scenario_defs)
  from columnInfo_missing_column_throws [OF a b c] a b c show ?thesis
    by simp
qed

text \<open>
  C10. The object literal of the single-column branch of \<open>columnInfo\<close> and the one of the
  mapping over all rows build the same \<open>Column\<close> from every raw row.
\<close>

theorem column_mappings_agree: "column_of_raw_single rawColumn = column_of_raw_list rawColumn"
  by (simp add: column_of_raw_single_def column_of_raw_list_def)

section \<open>Columns and their keys\<close>

lemma foreign_key_paired_raw:
  assumes "key_usage_wellformed cat" and "j \<in> set (joined_rows cat)"
  shows "foreign_key_paired (column_of_raw_single (raw_column j))"
    and "foreign_key_paired (column_of_raw_list (raw_column j))"
proof -
  obtain c ko xo where j: "j = (c, ko, xo)"
    by (cases j)
  have "(fk_REFERENCED_TABLE_NAME k = None) = (fk_REFERENCED_COLUMN_NAME k = None)"
    if "ko = Some k" for k
    using assms joined_rows_key [of c k xo cat] that
    by (simp add: j key_usage_wellformed_def list_all_iff)
  then have "absent (get (raw_column j) ''REFERENCED_TABLE_NAME'') =
      absent (get (raw_column j) ''REFERENCED_COLUMN_NAME'')"
    by (cases ko)
      (auto simp add: j raw_column_def get_def absent_def
        split: option.split)
  then show "foreign_key_paired (column_of_raw_single (raw_column j))"
    and "foreign_key_paired (column_of_raw_list (raw_column j))"
    by (simp_all add: foreign_key_paired_def column_of_raw_single_def column_of_raw_list_def)
qed

text \<open>
  C9. In a catalog whose key-usage rows name a referenced table exactly when they name a
  referenced column, every \<open>Column\<close> that \<open>columnInfo\<close> returns, alone or in the list, has
  \<open>foreign_key_table\<close> and \<open>foreign_key_column\<close> both present or both absent.
\<close>

theorem columnInfo_foreign_key_paired:
  assumes "key_usage_wellformed cat"
  shows "(columnInfo cat table column = Inr (One c) \<longrightarrow> foreign_key_paired c) \<and>
         (columnInfo cat table column = Inr (Many cs) \<longrightarrow> (\<forall>c \<in> set cs. foreign_key_paired c))"
proof -
  have rows: "\<exists>j \<in> set (joined_rows cat). r = raw_column j"
    if "r \<in> set (columnInfo_rows cat table column)" for r
    using that by (auto simp add: columnInfo_rows_def)
  have single: "foreign_key_paired (column_of_raw_single r)"
    if "r \<in> set (columnInfo_rows cat table column)" for r
    using rows [OF that] foreign_key_paired_raw(1) [OF assms] by auto
  have many: "foreign_key_paired (column_of_raw_list r)"
    if "r \<in> set (columnInfo_rows cat table column)" for r
    using rows [OF that] foreign_key_paired_raw(2) [OF assms] by auto
  show ?thesis
  proof (cases "truthy (arg column)")
    case True
    then show ?thesis
      using single by (auto simp add: columnInfo_typed split: list.splits)
  next
    case False
    then show ?thesis
      using many by (auto simp add: columnInfo_typed)
  qed
qed

theorem columnInfo_foreign_key_paired_witness:
  "key_usage_wellformed scenario \<and>
   columnInfo scenario (Some ''users'') (Some ''org_id'') =
     Inr (One \<lparr>Column_name = JStr ''org_id'', Column_table = JStr ''users'',
               Column_type = JStr ''int'', Column_default_value = JNull,
               Column_max_length = JNull, Column_is_nullable = JBool True,
               Column_is_primary_key = False, Column_has_auto_increment = False,
               Column_foreign_key_column = JStr ''id'', Column_foreign_key_table = JStr ''orgs'',
               Column_comment = JStr []\<rparr>) \<and>
   foreign_key_paired
     \<lparr>Column_name = JStr ''org_id'', Column_table = JStr ''users'',
      Column_type = JStr ''int'', Column_default_value = JNull,
      Column_max_length = JNull, Column_is_nullable = JBool True,
      Column_is_primary_key = False, Column_has_auto_increment = False,
      Column_foreign_key_column = JStr ''id'', Column_foreign_key_table = JStr ''orgs'',
      Column_comment = JStr []\<rparr>"
proof -
  have wf: "key_usage_wellformed scenario"
    by (simp add: key_usage_wellformed_def scenario_defs)
  have result: "columnInfo scenario (Some ''users'') (Some ''org_id'') =
     Inr (One \<lparr>Column_name = JStr ''org_id'', Column_table = JStr ''users'',
               Column_type = JStr ''int'', Column_default_value = JNull,
               Column_max_length = JNull, Column_is_nullable = JBool True,
               Column_is_primary_key = False, Column_has_auto_increment = False,
               Column_foreign_key_column = JStr ''id'', Column_foreign_key_table = JStr ''orgs'',
               Column_comment = JStr []\<rparr>)"
    by (simp add: columnInfo_typed typed_defs scenario_defs column_of_raw_single_def get_def)
  from columnInfo_foreign_key_paired [OF wf, of "Some ''users''" "Some ''org_id''"] result wf
  show ?thesis
    by simp
qed

text \<open>
  The condition of the first join compares \<open>fk.TABLE_NAME\<close> with itself. What is left of
  it is the column's name and the schema (lemma \<open>on_fk\<close>): a column is joined to the
  key-usage rows of every table of the schema that has a column of that name. The
  second join does compare the table's name, the constraint's name and the schema
  (lemma \<open>on_rc\<close>).

  C6. The specification asks that a column be joined only to the key-usage rows of its
  own table. With \<open>users(id INT PRIMARY KEY)\<close> and \<open>logs(id INT)\<close>, the only key-usage
  row is the primary key of \<open>users\<close>; the join condition holds between it and the column
  \<open>id\<close> of \<open>logs\<close>, and \<open>columnInfo("logs", "id")\<close> reports a primary key.
\<close>

theorem columnInfo_joins_key_of_other_table:
  "info_key_column_usage shared_column_name = [primary_key_usage ''users'' ''id''] \<and>
   on_holds fk_on
     (c_part (int_column ''logs'' ''id'') @ fk_part (Some (primary_key_usage ''users'' ''id''))) \<and>
   columnInfo shared_column_name (Some ''logs'') (Some ''id'') =
     Inr (One \<lparr>Column_name = JStr ''id'', Column_table = JStr ''logs'',
               Column_type = JStr ''int'', Column_default_value = JNull,
               Column_max_length = JNull, Column_is_nullable = JBool True,
               Column_is_primary_key = True, Column_has_auto_increment = False,
               Column_foreign_key_column = JNull, Column_foreign_key_table = JNull,
               Column_comment = JStr []\<rparr>)"
proof -
  have "on_holds fk_on
     (c_part (int_column ''logs'' ''id'') @ fk_part (Some (primary_key_usage ''users'' ''id'')))"
    by (simp add: fk_part_def on_fk key_usage_on_def int_column_def primary_key_usage_def)
  moreover have "columnInfo shared_column_name (Some ''logs'') (Some ''id'') =
     Inr (One \<lparr>Column_name = JStr ''id'', Column_table = JStr ''logs'',
               Column_type = JStr ''int'', Column_default_value = JNull,
               Column_max_length = JNull, Column_is_nullable = JBool True,
               Column_is_primary_key = True, Column_has_auto_increment = False,
               Column_foreign_key_column = JNull, Column_foreign_key_table = JNull,
               Column_comment = JStr []\<rparr>)"
    by (simp add: columnInfo_typed typed_defs shared_defs column_of_raw_single_def get_def)
  ultimately show ?thesis
    by (simp add: shared_column_name_def)
qed

text \<open>
  For a column that exists, \<open>columnInfo\<close> returns the \<open>Column\<close> built from the first row
  its query answers: the \<open>table\<close> and the \<open>name\<close> are the ones asked for, and
  \<open>is_primary_key\<close> says whether the constraint name carried by that row is \<open>PRIMARY\<close>.
\<close>

lemma first_selected:
  assumes "table \<noteq> []" and "column \<noteq> []" and "column_exists cat table column"
  shows "\<exists>c ko xo rest.
    filter (selected cat (Some table) (Some column)) (joined_rows cat) = (c, ko, xo) # rest \<and>
    (c, ko, xo) \<in> set (joined_rows cat) \<and>
    c_TABLE_SCHEMA c = database cat \<and> c_TABLE_NAME c = table \<and> c_COLUMN_NAME c = column"
proof -
  obtain c0 where c0: "c0 \<in> set (info_columns cat)" "c_TABLE_SCHEMA c0 = database cat"
    "c_TABLE_NAME c0 = table" "c_COLUMN_NAME c0 = column"
    using assms(3) by (auto simp add: column_exists_def list_ex_iff)
  obtain ko0 xo0 where "(c0, ko0, xo0) \<in> set (joined_rows cat)"
    using joined_rows_keeps [OF c0(1)] by blast
  moreover have "selected cat (Some table) (Some column) (c0, ko0, xo0)"
    using c0 assms(1,2) by (simp add: selected_def)
  ultimately have "filter (selected cat (Some table) (Some column)) (joined_rows cat) \<noteq> []"
    by (auto simp add: filter_empty_conv)
  then obtain j rest where
    first: "filter (selected cat (Some table) (Some column)) (joined_rows cat) = j # rest"
    by (cases "filter (selected cat (Some table) (Some column)) (joined_rows cat)") auto
  then have "j \<in> set (filter (selected cat (Some table) (Some column)) (joined_rows cat))"
    by simp
  then have j: "j \<in> set (joined_rows cat)" "selected cat (Some table) (Some column) j"
    by simp_all
  obtain c ko xo where "j = (c, ko, xo)"
    by (cases j)
  with first j assms(1,2) show ?thesis
    by (auto simp add: selected_def)
qed

lemma columnInfo_existing_column_fields:
  assumes "table \<noteq> []" and "column \<noteq> []" and "column_exists cat table column"
  shows "\<exists>raw.
    await cat
      (knex_first (knex_andWhere [(qcol ''c'' ''column_name'', JStr column)]
        (columnInfo_query cat (Some table)))) = Inr (Row raw) \<and>
    columnInfo cat (Some table) (Some column) = Inr (One (column_of_raw_single raw)) \<and>
    Column_table (column_of_raw_single raw) = JStr table \<and>
    Column_name (column_of_raw_single raw) = JStr column \<and>
    Column_is_primary_key (column_of_raw_single raw) =
      (get raw ''CONSTRAINT_NAME'' = JStr ''PRIMARY'')"
proof -
  obtain c ko xo rest where
    first: "filter (selected cat (Some table) (Some column)) (joined_rows cat) = (c, ko, xo) # rest"
    and c: "c_TABLE_SCHEMA c = database cat" "c_TABLE_NAME c = table" "c_COLUMN_NAME c = column"
    using first_selected [OF assms] by blast
  define raw where "raw = raw_column (c, ko, xo)"
  have rows: "columnInfo_rows cat (Some table) (Some column) = raw # map raw_column rest"
    by (simp add: columnInfo_rows_def first raw_def)
  have "await cat
      (knex_first (knex_andWhere [(qcol ''c'' ''column_name'', JStr column)]
        (columnInfo_query cat (Some table)))) = Inr (Row raw)"
    using await_columnInfo [of cat "Some column" "Some table"] assms(2) by (simp add: rows)
  moreover have "columnInfo cat (Some table) (Some column) = Inr (One (column_of_raw_single raw))"
    using assms(2) by (simp add: columnInfo_typed rows)
  moreover have "Column_table (column_of_raw_single raw) = JStr table"
    and "Column_name (column_of_raw_single raw) = JStr column"
    by (simp_all add: column_of_raw_single_def raw_def raw_column_def get_def c)
  moreover have "Column_is_primary_key (column_of_raw_single raw) =
      (get raw ''CONSTRAINT_NAME'' = JStr ''PRIMARY'')"
    by (simp add: column_of_raw_single_def)
  ultimately show ?thesis
    by blast
qed

text \<open>
  Which row comes first is not fixed by the query. For a column with two key-usage rows
  of its own, as the primary key \<open>user_id\<close> of \<open>profiles\<close> that is also a foreign key, the
  row of the foreign key may come first.
\<close>

lemma columnInfo_primary_and_foreign:
  "column_exists primary_and_foreign ''profiles'' ''user_id'' \<and>
   declared_primary_key primary_and_foreign ''profiles'' ''user_id'' \<and>
   columnInfo primary_and_foreign (Some ''profiles'') (Some ''user_id'') =
     Inr (One \<lparr>Column_name = JStr ''user_id'', Column_table = JStr ''profiles'',
               Column_type = JStr ''int'', Column_default_value = JNull,
               Column_max_length = JNull, Column_is_nullable = JBool False,
               Column_is_primary_key = False, Column_has_auto_increment = False,
               Column_foreign_key_column = JStr ''id'', Column_foreign_key_table = JStr ''users'',
               Column_comment = JStr []\<rparr>)"
proof -
  have "column_exists primary_and_foreign ''profiles'' ''user_id''"
    by (simp add: column_exists_def profiles_defs)
  moreover have "declared_primary_key primary_and_foreign ''profiles'' ''user_id''"
    by (simp add: declared_primary_key_def profiles_defs)
  moreover have "columnInfo primary_and_foreign (Some ''profiles'') (Some ''user_id'') =
     Inr (One \<lparr>Column_name = JStr ''user_id'', Column_table = JStr ''profiles'',
               Column_type = JStr ''int'', Column_default_value = JNull,
               Column_max_length = JNull, Column_is_nullable = JBool False,
               Column_is_primary_key = False, Column_has_auto_increment = False,
               Column_foreign_key_column = JStr ''id'', Column_foreign_key_table = JStr ''users'',
               Column_comment = JStr []\<rparr>)"
    by (simp add: columnInfo_typed typed_defs profiles_defs column_of_raw_single_def get_def)
  ultimately show ?thesis
    by simp
qed

text \<open>
  C5. The specification asks that \<open>is_primary_key\<close> be true iff the column is the declared
  primary key of its table. With \<open>users(id INT PRIMARY KEY)\<close> and \<open>logs(id INT)\<close>, the
  column \<open>id\<close> of \<open>logs\<close> exists and is not a declared primary key, and
  \<open>columnInfo("logs", "id")\<close> returns \<open>is_primary_key = true\<close>: the first join gave it the
  key-usage row of \<open>users\<close>.
\<close>

theorem columnInfo_primary_key_of_other_table:
  "column_exists shared_column_name ''logs'' ''id'' \<and>
   \<not> declared_primary_key shared_column_name ''logs'' ''id'' \<and>
   columnInfo shared_column_name (Some ''logs'') (Some ''id'') =
     Inr (One \<lparr>Column_name = JStr ''id'', Column_table = JStr ''logs'',
               Column_type = JStr ''int'', Column_default_value = JNull,
               Column_max_length = JNull, Column_is_nullable = JBool True,
               Column_is_primary_key = True, Column_has_auto_increment = False,
               Column_foreign_key_column = JNull, Column_foreign_key_table = JNull,
               Column_comment = JStr []\<rparr>)"
proof -
  have "column_exists shared_column_name ''logs'' ''id''"
    by (simp add: column_exists_def shared_defs)
  moreover have "\<not> declared_primary_key shared_column_name ''logs'' ''id''"
    by (simp add: declared_primary_key_def shared_defs)
  moreover have "columnInfo shared_column_name (Some ''logs'') (Some ''id'') =
     Inr (One \<lparr>Column_name = JStr ''id'', Column_table = JStr ''logs'',
               Column_type = JStr ''int'', Column_default_value = JNull,
               Column_max_length = JNull, Column_is_nullable = JBool True,
               Column_is_primary_key = True, Column_has_auto_increment = False,
               Column_foreign_key_column = JNull, Column_foreign_key_table = JNull,
               Column_comment = JStr []\<rparr>)"
    by (simp add: columnInfo_typed typed_defs shared_defs column_of_raw_single_def get_def)
  ultimately show ?thesis
    by simp
qed

section \<open>The primary key\<close>

lemma split_on_whole: "d \<notin> set s \<Longrightarrow> split_on d s = [s]"
  by (induction s) auto

lemma plain_target:
  assumes "plain_identifier n"
  shows "show_keys_target cat n = Some (database cat, n)"
  using assms by (simp add: plain_identifier_def show_keys_target_def split_on_whole)

lemma primary_qualified_name: "primary scenario ''app.users'' = Inr (JStr ''id'')"
  by (simp add: primary_def raw_show_keys_primary_def show_keys_target_def norm_def upper_def
      trim_def is_space_def scenario_defs keys_obj_def get_def)

lemmas odd_names_defs = odd_names_def users_table_def key_listing_def

text \<open>
  C8, as the specification states it, fails for a table whose name is not a plain
  identifier. In \<open>odd_names\<close> each table has the primary key \<open>id\<close>; \<open>primary("v1.users")\<close>
  asks for the table \<open>users\<close> of a database \<open>v1\<close>, \<open>primary(" users")\<close> for the table
  \<open>users\<close>, and the other two statements are refused.
\<close>

theorem primary_odd_names_counterexample:
  "list_all (\<lambda>n. table_exists odd_names n \<and>
                  primary_key_row odd_names n (key_listing n ''PRIMARY'' ''id'') \<and>
                  key_listing n ''PRIMARY'' ''id'' \<in> set (show_keys odd_names))
     [''v1.users'', ''users as u'', '' users'', ''*''] \<and>
   primary odd_names ''v1.users'' = Inl (QueryError ''Table does not exist'') \<and>
   primary odd_names ''users as u'' = Inl (QueryError ''You have an error in your SQL syntax'') \<and>
   primary odd_names '' users'' = Inl (QueryError ''Table does not exist'') \<and>
   primary odd_names ''*'' = Inl (QueryError ''You have an error in your SQL syntax'')"
proof -
  have "list_all (\<lambda>n. table_exists odd_names n \<and>
                  primary_key_row odd_names n (key_listing n ''PRIMARY'' ''id'') \<and>
                  key_listing n ''PRIMARY'' ''id'' \<in> set (show_keys odd_names))
     [''v1.users'', ''users as u'', '' users'', ''*'']"
    by (simp add: table_exists_def primary_key_row_def odd_names_defs)
  moreover have "primary odd_names ''v1.users'' = Inl (QueryError ''Table does not exist'')"
    and "primary odd_names ''users as u'' = Inl (QueryError ''You have an error in your SQL syntax'')"
    and "primary odd_names '' users'' = Inl (QueryError ''Table does not exist'')"
    and "primary odd_names ''*'' = Inl (QueryError ''You have an error in your SQL syntax'')"
    by (simp_all add: primary_def raw_show_keys_primary_def show_keys_target_def norm_def upper_def
        trim_def is_space_def odd_names_defs)
  ultimately show ?thesis
    by simp
qed

lemma plain_names: "plain_identifier ''users''" "plain_identifier ''profiles''"
  by (simp_all add: plain_identifier_def norm_def upper_def trim_def is_space_def)

text \<open>
  C8, amended. For every table of the selected database whose name is a plain identifier
  and whose key listing has a row under the key \<open>PRIMARY\<close>, \<open>primary\<close> returns the column
  of the first such row of the listing: the table's primary-key column. In the scenario,
  \<open>primary("users")\<close> returns \<open>"id"\<close>.
\<close>

theorem primary_returns_key_column:
  assumes "plain_identifier table" and "table_exists cat table"
    and "show_keys cat = before @ k # rest"
    and "primary_key_row cat table k"
    and "\<forall>b \<in> set before. \<not> primary_key_row cat table b"
  shows "primary cat table = Inr (JStr (k_Column_name k))"
proof -
  have "filter (\<lambda>r. k_Schema r = database cat \<and> k_Table r = table \<and> k_Key_name r = ''PRIMARY'')
          before = []"
    using assms(5) by (auto simp add: filter_empty_conv primary_key_row_def)
  then have "filter (\<lambda>r. k_Schema r = database cat \<and> k_Table r = table \<and> k_Key_name r = ''PRIMARY'')
          (show_keys cat) =
        k # filter (\<lambda>r. k_Schema r = database cat \<and> k_Table r = table \<and> k_Key_name r = ''PRIMARY'')
          rest"
    using assms(4) by (simp add: assms(3) primary_key_row_def)
  then show ?thesis
    using assms(2)
    by (simp add: primary_def raw_show_keys_primary_def plain_target [OF assms(1)]
        table_exists_def keys_obj_def get_def)
qed

theorem primary_returns_key_column_witness:
  "primary scenario ''users'' = Inr (JStr ''id'') \<and>
   primary primary_and_foreign ''profiles'' = Inr (JStr ''user_id'')"
proof -
  have users: "table_exists scenario ''users''"
    "show_keys scenario =
       [] @ key_listing ''users'' ''PRIMARY'' ''id''
          # [key_listing ''users'' ''users_ibfk_1'' ''org_id'',
             key_listing ''orgs'' ''PRIMARY'' ''id'']"
    "primary_key_row scenario ''users'' (key_listing ''users'' ''PRIMARY'' ''id'')"
    "\<forall>b \<in> set []. \<not> primary_key_row scenario ''users'' b"
    by (simp_all add: table_exists_def primary_key_row_def scenario_defs)
  have profiles: "table_exists primary_and_foreign ''profiles''"
    "show_keys primary_and_foreign =
       [key_listing ''users'' ''PRIMARY'' ''id'']
       @ key_listing ''profiles'' ''PRIMARY'' ''user_id''
          # [key_listing ''profiles'' ''FK_profiles_user'' ''user_id'']"
    "primary_key_row primary_and_foreign ''profiles''
       (key_listing ''profiles'' ''PRIMARY'' ''user_id'')"
    "\<forall>b \<in> set [key_listing ''users'' ''PRIMARY'' ''id''].
       \<not> primary_key_row primary_and_foreign ''profiles'' b"
    by (simp_all add: table_exists_def primary_key_row_def profiles_defs)
  from primary_returns_key_column [OF plain_names(1) users]
    primary_returns_key_column [OF plain_names(2) profiles]
  show ?thesis
    by (simp add: key_listing_def)
qed

end
